theory Spec2Isabelle
  imports Complex_Main "HOL-Library.Sublist" "HOL-Library.AList"
begin

section \<open>Exceptions\<close>

text \<open>
  The script \<^verbatim>\<open>src/style_transfer/train.py\<close> has no \<^verbatim>\<open>try\<close>: every exception a
  library call raises ends the run. Exceptions are values of the type below and every
  fallible operation returns \<open>error + 'a\<close>, with \<open>Inl\<close> for the raise.
\<close>

datatype error =
    KeyError string
  | ValueError
  | RuntimeError
  | ZeroDivisionError
  | IndexError
  | FileNotFoundError
  | ConnectionError
  | UnidentifiedImageError
  | OSError

section \<open>Tensors\<close>

text \<open>
  A tensor (and a NumPy array) is its shape and its elements in row-major order, the
  layout of a contiguous tensor. Floating-point numbers are idealised as reals: rounding
  and the non-finite values are outside the model.
\<close>

record tensor =
  shape :: "nat list"
  data :: "real list"

definition numel :: "tensor \<Rightarrow> nat" where
  "numel a = prod_list (shape a)"

text \<open>\<^verbatim>\<open>tensor.view(shp)\<close>: same elements, new shape; raises when the element counts differ.\<close>

definition view :: "tensor \<Rightarrow> nat list \<Rightarrow> error + tensor" where
  "view a shp = (if prod_list shp = numel a then Inr (a\<lparr>shape := shp\<rparr>) else Inl RuntimeError)"

text \<open>\<^verbatim>\<open>tensor.t()\<close>: transposes a matrix, returns a tensor of rank 0 or 1 as it is, and
  raises on a higher rank.\<close>

definition tensor_t :: "tensor \<Rightarrow> error + tensor" where
  "tensor_t a =
     (case shape a of
        [] \<Rightarrow> Inr a
      | [n] \<Rightarrow> Inr a
      | [r, c] \<Rightarrow>
          Inr \<lparr>shape = [c, r],
               data = concat (map (\<lambda>j. map (\<lambda>i. data a ! (i * c + j)) [0..<r]) [0..<c])\<rparr>
      | _ \<Rightarrow> Inl RuntimeError)"

text \<open>\<^verbatim>\<open>torch.mm(a, b)\<close>: the product of an \<open>n \<times> m\<close> and an \<open>m \<times> p\<close> matrix.\<close>

definition torch_mm :: "tensor \<Rightarrow> tensor \<Rightarrow> error + tensor" where
  "torch_mm a b =
     (case (shape a, shape b) of
        ([n, m], [m', p]) \<Rightarrow>
          if m = m'
          then Inr \<lparr>shape = [n, p],
                    data = concat (map (\<lambda>i. map (\<lambda>j.
                              (\<Sum>k\<leftarrow>[0..<m]. data a ! (i * m + k) * data b ! (k * p + j)))
                            [0..<p]) [0..<n])\<rparr>
          else Inl RuntimeError
      | _ \<Rightarrow> Inl RuntimeError)"

text \<open>
  \<^verbatim>\<open>gram_matrix\<close> (lines 107-115): unpacking \<^verbatim>\<open>tensor.size()\<close> into four names raises
  a \<^verbatim>\<open>ValueError\<close> unless the rank is 4.
\<close>

definition gram_matrix :: "tensor \<Rightarrow> error + tensor" where
  "gram_matrix tensor =
     (case shape tensor of
        [b, d, h, w] \<Rightarrow>
          (case view tensor [d, h * w] of
             Inl e \<Rightarrow> Inl e
           | Inr tensor' \<Rightarrow>
               (case tensor_t tensor' of
                  Inl e \<Rightarrow> Inl e
                | Inr tt \<Rightarrow> torch_mm tensor' tt))
      | _ \<Rightarrow> Inl ValueError)"


subsection \<open>Broadcasting\<close>

text \<open>
  Element-wise operators of torch and NumPy broadcast their operands: the shapes are aligned
  from the right, and two dimensions are compatible when they are equal or one of them is 1.
  \<open>broadcast_dims\<close> works on the reversed shapes; \<open>err\<close> is the exception of the library
  at hand (\<^verbatim>\<open>RuntimeError\<close> in torch, \<^verbatim>\<open>ValueError\<close> in NumPy).
\<close>

fun broadcast_dims :: "error \<Rightarrow> nat list \<Rightarrow> nat list \<Rightarrow> error + nat list" where
  "broadcast_dims err [] ys = Inr ys"
| "broadcast_dims err (x # xs) [] = Inr (x # xs)"
| "broadcast_dims err (x # xs) (y # ys) =
     (if x = y \<or> y = 1 then
        (case broadcast_dims err xs ys of Inl e \<Rightarrow> Inl e | Inr r \<Rightarrow> Inr (x # r))
      else if x = 1 then
        (case broadcast_dims err xs ys of Inl e \<Rightarrow> Inl e | Inr r \<Rightarrow> Inr (y # r))
      else Inl err)"

definition broadcast_shape :: "error \<Rightarrow> nat list \<Rightarrow> nat list \<Rightarrow> error + nat list" where
  "broadcast_shape err xs ys =
     (case broadcast_dims err (rev xs) (rev ys) of Inl e \<Rightarrow> Inl e | Inr r \<Rightarrow> Inr (rev r))"

text \<open>The row-major offset of a multi-index; a dimension of size 1 is read at index 0.\<close>

fun ravel :: "nat list \<Rightarrow> nat list \<Rightarrow> nat" where
  "ravel (n # ns) (i # is) = (if n = 1 then 0 else i) * prod_list ns + ravel ns is"
| "ravel _ _ = 0"

definition broadcast_to :: "tensor \<Rightarrow> nat list \<Rightarrow> real list" where
  "broadcast_to a shp =
     map (\<lambda>idx. data a ! ravel (shape a) (drop (length shp - length (shape a)) idx))
       (product_lists (map (\<lambda>n. [0..<n]) shp))"

definition binop :: "error \<Rightarrow> (real \<Rightarrow> real \<Rightarrow> real) \<Rightarrow> tensor \<Rightarrow> tensor \<Rightarrow> error + tensor" where
  "binop err f a b =
     (if shape a = shape b then Inr \<lparr>shape = shape a, data = map2 f (data a) (data b)\<rparr>
      else
        (case broadcast_shape err (shape a) (shape b) of
           Inl e \<Rightarrow> Inl e
         | Inr shp \<Rightarrow> Inr \<lparr>shape = shp, data = map2 f (broadcast_to a shp) (broadcast_to b shp)\<rparr>))"

definition pow2 :: "tensor \<Rightarrow> tensor" where
  "pow2 a = a\<lparr>data := map (\<lambda>x. x ^ 2) (data a)\<rparr>"

text \<open>\<^verbatim>\<open>torch.mean\<close> of all elements.\<close>

definition torch_mean :: "tensor \<Rightarrow> real" where
  "torch_mean a = sum_list (data a) / real (length (data a))"

section \<open>Displaying a tensor: \<^verbatim>\<open>im_convert\<close> (lines 63-71)\<close>

text \<open>\<^verbatim>\<open>squeeze()\<close> drops every dimension of size 1.\<close>

definition squeeze :: "tensor \<Rightarrow> tensor" where
  "squeeze a = a\<lparr>shape := filter (\<lambda>n. n \<noteq> 1) (shape a)\<rparr>"

text \<open>\<^verbatim>\<open>transpose(1,2,0)\<close>: from (channel, row, column) to (row, column, channel); NumPy
  raises a \<^verbatim>\<open>ValueError\<close> when the array does not have three axes.\<close>

definition transpose_120 :: "tensor \<Rightarrow> error + tensor" where
  "transpose_120 a =
     (case shape a of
        [c, h, w] \<Rightarrow>
          Inr \<lparr>shape = [h, w, c],
               data = concat (map (\<lambda>i. concat (map (\<lambda>j.
                        map (\<lambda>k. data a ! ((k * h + i) * w + j)) [0..<c]) [0..<w])) [0..<h])\<rparr>
      | _ \<Rightarrow> Inl ValueError)"

definition clip :: "real \<Rightarrow> real \<Rightarrow> tensor \<Rightarrow> tensor" where
  "clip lo hi a = a\<lparr>data := map (\<lambda>x. min hi (max lo x)) (data a)\<rparr>"

definition norm_std :: tensor where
  "norm_std = \<lparr>shape = [3], data = [0.229, 0.224, 0.225]\<rparr>"

definition norm_mean :: tensor where
  "norm_mean = \<lparr>shape = [3], data = [0.485, 0.456, 0.406]\<rparr>"

definition im_convert :: "tensor \<Rightarrow> error + tensor" where
  "im_convert tensor =
     (let img = squeeze tensor in
      case transpose_120 img of
        Inl e \<Rightarrow> Inl e
      | Inr img \<Rightarrow>
          (case binop ValueError (*) img norm_std of
             Inl e \<Rightarrow> Inl e
           | Inr img \<Rightarrow>
               (case binop ValueError (+) img norm_mean of
                  Inl e \<Rightarrow> Inl e
                | Inr img \<Rightarrow> Inr (clip 0 1 img))))"

section \<open>The network, its parameters and the optimizer\<close>

text \<open>
  A parameter (a leaf tensor of autograd) has a value, the flag \<^verbatim>\<open>requires_grad\<close> and a
  gradient buffer \<^verbatim>\<open>.grad\<close>. A module of the network owns its parameters; what it
  computes from them and its input is given by \<open>forward\<close>. The pretrained network, the
  gradients autograd computes and the update rule of Adam are library code: they are
  fields of the record \<open>world\<close> below, and the model fixes only which objects they are
  applied to.
\<close>

record param =
  val :: tensor
  requires_grad :: bool
  grad :: "tensor option"

record layer =
  parameters :: "param list"
  forward :: "tensor list \<Rightarrow> tensor \<Rightarrow> tensor"

definition apply_layer :: "layer \<Rightarrow> tensor \<Rightarrow> tensor" where
  "apply_layer l x = forward l (map val (parameters l)) x"

text \<open>A reference to a parameter: the target image, or parameter \<open>k\<close> of the module
  \<open>name\<close> of the network.\<close>

datatype pref = Target | Weight string nat

record adam_state =
  step_count :: nat
  exp_avg :: tensor
  exp_avg_sq :: tensor

record optimizer_rec =
  param_refs :: "pref list"
  lr :: real
  opt_state :: "pref \<rightharpoonup> adam_state"

datatype event =
    add_scalar string real int
  | add_figure string tensor int

text \<open>The module-level names of the script, and what it prints and saves.\<close>

record globals =
  vgg :: "(string \<times> layer) list"
  content :: tensor
  style :: tensor
  writer :: "event list"
  content_features :: "(string \<times> tensor) list"
  style_features :: "(string \<times> tensor) list"
  style_grams :: "(string \<times> tensor) list"
  target :: param
  optimizer :: optimizer_rec
  console :: "real list"
  saved :: "(string \<times> tensor) list"

record config =
  content_path :: string
  style_path :: string
  max_size :: nat
  style_weights :: "(string \<times> real) list"
  content_weight :: real
  style_weight :: real
  show_every :: int
  learning_rate :: real
  steps :: int

definition default_config :: config where
  "default_config =
     \<lparr>content_path = ''images/pisa.jpeg'',
      style_path = ''images/ship_at_sea.jpeg'',
      max_size = 400,
      style_weights =
        [(''conv1_1'', 1), (''conv2_1'', 0.8), (''conv3_1'', 0.5), (''conv4_1'', 0.3),
         (''conv5_1'', 0.1)],
      content_weight = 1,
      style_weight = 1000000,
      show_every = 200,
      learning_rate = 0.003,
      steps = 2001\<rparr>"

section \<open>Images and the outside world\<close>

text \<open>A decoded image: \<^verbatim>\<open>image.size\<close> is (width, height); the pixels are bytes, row by
  row, the bands of a pixel together.\<close>

record pil_image =
  im_size :: "nat \<times> nat"
  pixels :: "nat list"

datatype source = Path string | BytesIO string

text \<open>
  What the script takes from outside. \<open>requests_get\<close> is \<^verbatim>\<open>response.content\<close> of
  \<^verbatim>\<open>requests.get(url)\<close>, or the exception raised; \<open>Image_open\<close> is \<^verbatim>\<open>Image.open\<close> on a
  path or on the \<^verbatim>\<open>BytesIO\<close> of some bytes, which reads the header only;
  \<open>convert_RGB\<close> gives the pixels of \<^verbatim>\<open>.convert('RGB')\<close>, the call that decodes the
  image data and raises when the data are truncated or corrupt; \<open>resample\<close> gives the
  pixels of the decoded image resized to a (width, height);
  \<open>vgg19_features\<close> is \<^verbatim>\<open>models.vgg19(...).features._modules\<close>, name by name;
  \<open>autograd W cfg s r\<close> is the gradient of the total loss, in the globals \<open>s\<close>, with
  respect to the parameter \<open>r\<close>; \<open>adam_update\<close> is one update of Adam, from the learning
  rate, the moment estimates, the value and its gradient to the new value and estimates.
\<close>

record world =
  requests_get :: "string \<Rightarrow> error + string"
  Image_open :: "source \<Rightarrow> error + pil_image"
  convert_RGB :: "pil_image \<Rightarrow> error + nat list"
  resample :: "pil_image \<Rightarrow> nat \<times> nat \<Rightarrow> nat list"
  vgg19_features :: "(string \<times> layer) list"
  autograd :: "config \<Rightarrow> globals \<Rightarrow> pref \<Rightarrow> tensor"
  adam_update :: "real \<Rightarrow> adam_state option \<Rightarrow> tensor \<Rightarrow> tensor \<Rightarrow> tensor \<times> adam_state"

section \<open>Loading an image: \<^verbatim>\<open>load_image\<close> (lines 14-41)\<close>

text \<open>
  \<^verbatim>\<open>transforms.Resize(size)\<close> of torchvision. An integer \<^verbatim>\<open>size\<close> (here the one-element
  list) is matched to the \<^emph>\<open>smaller\<close> edge of the image and the other edge keeps the
  aspect ratio, \<^verbatim>\<open>int(size * long / short)\<close>; a sequence \<^verbatim>\<open>(h, w)\<close> is the output size
  itself. The argument and the result are (height, width). An image that already has the
  output size is returned as it is.
\<close>

definition compute_resized_output_size :: "nat \<times> nat \<Rightarrow> nat list \<Rightarrow> error + nat \<times> nat" where
  "compute_resized_output_size image_size sz =
     (case sz of
        [s] \<Rightarrow>
          (let (h, w) = image_size;
               (short, long) = (if w \<le> h then (w, h) else (h, w))
           in if short = 0 then Inl ZeroDivisionError
              else
                (let new_short = s; new_long = (s * long) div short
                 in Inr (if w \<le> h then (new_long, new_short) else (new_short, new_long))))
      | [new_h, new_w] \<Rightarrow> Inr (new_h, new_w)
      | _ \<Rightarrow> Inl ValueError)"

definition Resize :: "world \<Rightarrow> nat list \<Rightarrow> pil_image \<Rightarrow> error + pil_image" where
  "Resize W sz img =
     (let (w, h) = im_size img in
      case compute_resized_output_size (h, w) sz of
        Inl e \<Rightarrow> Inl e
      | Inr (new_h, new_w) \<Rightarrow>
          if (h, w) = (new_h, new_w) then Inr img
          else Inr \<lparr>im_size = (new_w, new_h), pixels = resample W img (new_w, new_h)\<rparr>)"

text \<open>\<^verbatim>\<open>transforms.ToTensor()\<close> on an RGB image: shape (3, height, width), bytes scaled
  to [0, 1].\<close>

definition ToTensor :: "pil_image \<Rightarrow> tensor" where
  "ToTensor img =
     (let (w, h) = im_size img in
      \<lparr>shape = [3, h, w],
       data = concat (map (\<lambda>c. concat (map (\<lambda>i.
                map (\<lambda>j. real (pixels img ! ((i * w + j) * 3 + c)) / 255) [0..<w]) [0..<h]))
              [0..<3])\<rparr>)"

text \<open>\<^verbatim>\<open>transforms.Normalize(mean, std)\<close>: per channel, \<open>(x - mean) / std\<close>.\<close>

definition Normalize :: "tensor \<Rightarrow> tensor \<Rightarrow> tensor \<Rightarrow> error + tensor" where
  "Normalize mean std a =
     (case shape a of
        [c, h, w] \<Rightarrow>
          if c = length (data mean) then
            Inr (a\<lparr>data := concat (map (\<lambda>k.
                     map (\<lambda>n. (data a ! (k * (h * w) + n) - data mean ! k) / data std ! k)
                       [0..<h * w]) [0..<c])\<rparr>)
          else Inl RuntimeError
      | _ \<Rightarrow> Inl ValueError)"

text \<open>\<^verbatim>\<open>[:3,:,:]\<close> keeps the first three channels, \<^verbatim>\<open>unsqueeze(0)\<close> adds the batch
  dimension.\<close>

definition first3 :: "tensor \<Rightarrow> error + tensor" where
  "first3 a =
     (case shape a of
        [c, h, w] \<Rightarrow> Inr \<lparr>shape = [min 3 c, h, w], data = take (min 3 c * (h * w)) (data a)\<rparr>
      | _ \<Rightarrow> Inl IndexError)"

definition unsqueeze0 :: "tensor \<Rightarrow> tensor" where
  "unsqueeze0 a = a\<lparr>shape := 1 # shape a\<rparr>"

definition in_transform :: "world \<Rightarrow> nat list \<Rightarrow> pil_image \<Rightarrow> error + tensor" where
  "in_transform W sz img =
     (case Resize W sz img of
        Inl e \<Rightarrow> Inl e
      | Inr resized \<Rightarrow> Normalize norm_mean norm_std (ToTensor resized))"

text \<open>
  \<^verbatim>\<open>"http" in img_path\<close> is the substring test, \<^const>\<open>sublist\<close> on strings. The argument
  \<open>shape_arg\<close> is \<^verbatim>\<open>shape\<close>, \<open>None\<close> when it is not given.
\<close>

definition load_image :: "world \<Rightarrow> string \<Rightarrow> nat \<Rightarrow> nat list option \<Rightarrow> error + tensor" where
  "load_image W img_path max_sz shape_arg =
     (case (if sublist ''http'' img_path
            then (case requests_get W img_path of
                    Inl e \<Rightarrow> Inl e
                  | Inr response_content \<Rightarrow> Image_open W (BytesIO response_content))
            else Image_open W (Path img_path)) of
        Inl e \<Rightarrow> Inl e
      | Inr opened \<Rightarrow>
          (case convert_RGB W opened of
             Inl e \<Rightarrow> Inl e
           | Inr rgb \<Rightarrow>
               (let img = opened\<lparr>pixels := rgb\<rparr>;
                    sz = (if max (fst (im_size img)) (snd (im_size img)) > max_sz
                          then [max_sz]
                          else [max (fst (im_size img)) (snd (im_size img))]);
                    sz = (case shape_arg of None \<Rightarrow> sz | Some shp \<Rightarrow> shp)
                in case in_transform W sz img of
                     Inl e \<Rightarrow> Inl e
                   | Inr a \<Rightarrow>
                       (case first3 a of Inl e \<Rightarrow> Inl e | Inr img \<Rightarrow> Inr (unsqueeze0 img)))))"

section \<open>Feature extraction: \<^verbatim>\<open>get_features\<close> (lines 85-105)\<close>

text \<open>A Python dictionary keeps its keys in insertion order: an association list, read
  with \<^const>\<open>map_of\<close> and written with \<^const>\<open>AList.update\<close>.\<close>

definition default_layers :: "(string \<times> string) list" where
  "default_layers =
     [(''0'', ''conv1_1''), (''5'', ''conv2_1''), (''10'', ''conv3_1''), (''19'', ''conv4_1''),
      (''21'', ''conv4_2''), (''28'', ''conv5_1'')]"

fun run_modules ::
  "(string \<times> layer) list \<Rightarrow> (string \<times> string) list \<Rightarrow> tensor \<Rightarrow> (string \<times> tensor) list
     \<Rightarrow> (string \<times> tensor) list" where
  "run_modules [] layers x features = features"
| "run_modules ((name, l) # rest) layers x features =
     (let x = apply_layer l x in
      run_modules rest layers x
        (case map_of layers name of
           Some key \<Rightarrow> AList.update key x features
         | None \<Rightarrow> features))"

definition get_features ::
  "tensor \<Rightarrow> (string \<times> layer) list \<Rightarrow> (string \<times> string) list option \<Rightarrow> (string \<times> tensor) list" where
  "get_features img model layers =
     run_modules model (case layers of None \<Rightarrow> default_layers | Some ls \<Rightarrow> ls) img []"

section \<open>The loss (lines 154-173)\<close>

definition content_loss_of ::
  "(string \<times> tensor) list \<Rightarrow> (string \<times> tensor) list \<Rightarrow> error + real" where
  "content_loss_of target_features cfeatures =
     (case map_of target_features ''conv4_2'' of
        None \<Rightarrow> Inl (KeyError ''conv4_2'')
      | Some tf \<Rightarrow>
          (case map_of cfeatures ''conv4_2'' of
             None \<Rightarrow> Inl (KeyError ''conv4_2'')
           | Some cf \<Rightarrow>
               (case binop RuntimeError (-) tf cf of
                  Inl e \<Rightarrow> Inl e
                | Inr diff \<Rightarrow> Inr (torch_mean (pow2 diff)))))"

text \<open>The loop over \<^verbatim>\<open>style_weights\<close> (lines 158-170); \<open>acc\<close> is \<^verbatim>\<open>style_loss\<close>.\<close>

fun style_loss_loop ::
  "(string \<times> tensor) list \<Rightarrow> (string \<times> tensor) list \<Rightarrow> (string \<times> real) list \<Rightarrow> real
     \<Rightarrow> error + real" where
  "style_loss_loop target_features grams [] acc = Inr acc"
| "style_loss_loop target_features grams ((layer, wt) # rest) acc =
     (case map_of target_features layer of
        None \<Rightarrow> Inl (KeyError layer)
      | Some target_feature \<Rightarrow>
          (case gram_matrix target_feature of
             Inl e \<Rightarrow> Inl e
           | Inr target_gram \<Rightarrow>
               (case shape target_feature of
                  [b, d, h, w] \<Rightarrow>
                    (case map_of grams layer of
                       None \<Rightarrow> Inl (KeyError layer)
                     | Some style_gram \<Rightarrow>
                         (case binop RuntimeError (-) target_gram style_gram of
                            Inl e \<Rightarrow> Inl e
                          | Inr diff \<Rightarrow>
                              (let layer_style_loss = wt * torch_mean (pow2 diff)
                               in style_loss_loop target_features grams rest
                                    (acc + layer_style_loss / real (d * h * w)))))
                | _ \<Rightarrow> Inl ValueError)))"

definition total_loss_of ::
  "config \<Rightarrow> (string \<times> tensor) list \<Rightarrow> (string \<times> tensor) list \<Rightarrow> (string \<times> tensor) list
     \<Rightarrow> error + real" where
  "total_loss_of cfg target_features cfeatures grams =
     (case content_loss_of target_features cfeatures of
        Inl e \<Rightarrow> Inl e
      | Inr content_loss \<Rightarrow>
          (case style_loss_loop target_features grams (style_weights cfg) 0 of
             Inl e \<Rightarrow> Inl e
           | Inr style_loss \<Rightarrow>
               Inr (content_weight cfg * content_loss + style_weight cfg * style_loss)))"

section \<open>Gradients and the optimizer step (lines 176-178)\<close>

fun get_param :: "globals \<Rightarrow> pref \<Rightarrow> param option" where
  "get_param s Target = Some (target s)"
| "get_param s (Weight name k) =
     (case map_of (vgg s) name of
        None \<Rightarrow> None
      | Some l \<Rightarrow> if k < length (parameters l) then Some (parameters l ! k) else None)"

fun put_param :: "pref \<Rightarrow> param \<Rightarrow> globals \<Rightarrow> globals" where
  "put_param Target p s = s\<lparr>target := p\<rparr>"
| "put_param (Weight name k) p s =
     s\<lparr>vgg := map (\<lambda>(n, l). if n = name then (n, l\<lparr>parameters := (parameters l)[k := p]\<rparr>)
                            else (n, l)) (vgg s)\<rparr>"

text \<open>\<^verbatim>\<open>optimizer.zero_grad()\<close> clears the gradient buffer of every parameter the
  optimizer was given (to \<^verbatim>\<open>None\<close>, the default of current torch; older versions fill
  it with zeros).\<close>

definition zero_grad :: "globals \<Rightarrow> globals" where
  "zero_grad s =
     fold (\<lambda>r s. case get_param s r of None \<Rightarrow> s | Some p \<Rightarrow> put_param r (p\<lparr>grad := None\<rparr>) s)
       (param_refs (optimizer s)) s"

text \<open>
  \<^verbatim>\<open>total_loss.backward()\<close> adds the gradient of the loss to the buffer of every leaf
  that requires a gradient, and leaves the others alone. The derivative itself is
  \<open>autograd W\<close>. The target image requires a gradient from line 126 on, so the call does
  not raise for want of a leaf to differentiate.
\<close>

definition accumulate :: "tensor \<Rightarrow> param \<Rightarrow> param" where
  "accumulate g p =
     (if requires_grad p
      then p\<lparr>grad := Some (case grad p of
                             None \<Rightarrow> g
                           | Some g0 \<Rightarrow> \<lparr>shape = shape g0, data = map2 (+) (data g0) (data g)\<rparr>)\<rparr>
      else p)"

definition backward :: "world \<Rightarrow> config \<Rightarrow> globals \<Rightarrow> globals" where
  "backward W cfg s =
     s\<lparr>target := accumulate (autograd W cfg s Target) (target s),
       vgg := map (\<lambda>(n, l).
                (n, l\<lparr>parameters :=
                       map (\<lambda>k. accumulate (autograd W cfg s (Weight n k)) (parameters l ! k))
                         [0..<length (parameters l)]\<rparr>))
              (vgg s)\<rparr>"

text \<open>\<^verbatim>\<open>optimizer.step()\<close> updates the parameters the optimizer was given, those with a
  gradient, and their moment estimates. The update rule is \<open>adam_update W\<close>.\<close>

definition optimizer_step :: "world \<Rightarrow> globals \<Rightarrow> globals" where
  "optimizer_step W s =
     fold (\<lambda>r s.
             case get_param s r of
               None \<Rightarrow> s
             | Some p \<Rightarrow>
                 (case grad p of
                    None \<Rightarrow> s
                  | Some g \<Rightarrow>
                      (let (v, st) = adam_update W (lr (optimizer s)) (opt_state (optimizer s) r)
                                       (val p) g
                       in put_param r (p\<lparr>val := v\<rparr>)
                            (s\<lparr>optimizer :=
                                 (optimizer s)\<lparr>opt_state := (opt_state (optimizer s))(r \<mapsto> st)\<rparr>\<rparr>))))
       (param_refs (optimizer s)) s"

section \<open>The optimization loop (lines 148-184)\<close>

text \<open>
  One pass of the loop body at index \<open>ii\<close>. The result is the globals as the pass leaves
  them and the exception that ended it, if any.
\<close>

definition iteration :: "world \<Rightarrow> config \<Rightarrow> int \<Rightarrow> globals \<Rightarrow> globals \<times> error option" where
  "iteration W cfg ii s =
     (let target_features = get_features (val (target s)) (vgg s) None in
      case total_loss_of cfg target_features (content_features s) (style_grams s) of
        Inl e \<Rightarrow> (s, Some e)
      | Inr total_loss \<Rightarrow>
          (let s = s\<lparr>writer := writer s @ [add_scalar ''total_loss'' total_loss ii]\<rparr>;
               s = zero_grad s;
               s = backward W cfg s;
               s = optimizer_step W s
           in if show_every cfg = 0 then (s, Some ZeroDivisionError)
              else if ii mod show_every cfg = 0 then
                (let s = s\<lparr>console := console s @ [total_loss]\<rparr> in
                 case im_convert (val (target s)) of
                   Inl e \<Rightarrow> (s, Some e)
                 | Inr snapshot \<Rightarrow> (s\<lparr>writer := writer s @ [add_figure ''figs'' snapshot ii]\<rparr>, None))
              else (s, None)))"

fun train_loop :: "world \<Rightarrow> config \<Rightarrow> int list \<Rightarrow> globals \<Rightarrow> globals \<times> error option" where
  "train_loop W cfg [] s = (s, None)"
| "train_loop W cfg (ii # rest) s =
     (case iteration W cfg ii s of
        (s', Some e) \<Rightarrow> (s', Some e)
      | (s', None) \<Rightarrow> train_loop W cfg rest s')"

text \<open>\<^verbatim>\<open>range(a, b)\<close> on Python integers; it is empty when \<open>b \<le> a\<close>.\<close>

definition py_range :: "int \<Rightarrow> int \<Rightarrow> int list" where
  "py_range a b = [a..b - 1]"

section \<open>The script as a whole\<close>

definition freeze :: "(string \<times> layer) list \<Rightarrow> (string \<times> layer) list" where
  "freeze model =
     map (\<lambda>(n, l). (n, l\<lparr>parameters := map (\<lambda>p. p\<lparr>requires_grad := False\<rparr>) (parameters l)\<rparr>))
       model"

text \<open>The dictionary comprehension of line 122.\<close>

fun grams_of :: "(string \<times> tensor) list \<Rightarrow> error + (string \<times> tensor) list" where
  "grams_of [] = Inr []"
| "grams_of ((layer, f) # rest) =
     (case gram_matrix f of
        Inl e \<Rightarrow> Inl e
      | Inr g \<Rightarrow> (case grams_of rest of Inl e \<Rightarrow> Inl e | Inr gs \<Rightarrow> Inr ((layer, g) # gs)))"

text \<open>Lines 44-146: everything before the loop. \<open>Inl\<close> is an exception that ends the
  script there.\<close>

definition prepare :: "world \<Rightarrow> config \<Rightarrow> error + globals" where
  "prepare W cfg =
     (let model = freeze (vgg19_features W) in
      case load_image W (content_path cfg) (max_size cfg) None of
        Inl e \<Rightarrow> Inl e
      | Inr content_img \<Rightarrow>
          (case load_image W (style_path cfg) (max_size cfg)
                  (Some (drop (length (shape content_img) - 2) (shape content_img))) of
             Inl e \<Rightarrow> Inl e
           | Inr style_img \<Rightarrow>
               (let cfeatures = get_features content_img model None;
                    sfeatures = get_features style_img model None
                in case grams_of sfeatures of
                     Inl e \<Rightarrow> Inl e
                   | Inr grams \<Rightarrow>
                       Inr \<lparr>vgg = model, content = content_img, style = style_img, writer = [],
                            content_features = cfeatures, style_features = sfeatures,
                            style_grams = grams,
                            target = \<lparr>val = content_img, requires_grad = True, grad = None\<rparr>,
                            optimizer = \<lparr>param_refs = [Target], lr = learning_rate cfg,
                                         opt_state = Map.empty\<rparr>,
                            console = [], saved = []\<rparr>)))"

text \<open>Line 186.\<close>

definition export_image :: "globals \<Rightarrow> globals \<times> error option" where
  "export_image s =
     (case im_convert (val (target s)) of
        Inl e \<Rightarrow> (s, Some e)
      | Inr img \<Rightarrow> (s\<lparr>saved := saved s @ [(''target.png'', img)]\<rparr>, None))"

definition run :: "world \<Rightarrow> config \<Rightarrow> globals \<Rightarrow> globals \<times> error option" where
  "run W cfg s =
     (case train_loop W cfg (py_range 0 (steps cfg + 1)) s of
        (s', Some e) \<Rightarrow> (s', Some e)
      | (s', None) \<Rightarrow> export_image s')"


text \<open>What the writer and the console have received.\<close>

fun scalars :: "event list \<Rightarrow> (real \<times> int) list" where
  "scalars [] = []"
| "scalars (add_scalar tag v ii # evs) = (v, ii) # scalars evs"
| "scalars (add_figure tag img ii # evs) = scalars evs"

fun figure_steps :: "event list \<Rightarrow> int list" where
  "figure_steps [] = []"
| "figure_steps (add_scalar tag v ii # evs) = figure_steps evs"
| "figure_steps (add_figure tag img ii # evs) = ii # figure_steps evs"

text \<open>Every parameter of the network has \<^verbatim>\<open>requires_grad = False\<close>.\<close>

definition frozen :: "(string \<times> layer) list \<Rightarrow> bool" where
  "frozen model = list_all (\<lambda>(n, l). list_all (\<lambda>p. \<not> requires_grad p) (parameters l)) model"

text \<open>
  From \<open>s\<close> to \<open>s'\<close> nothing has changed but the value and the gradient buffer of the
  target image, the moment estimates of the optimizer, and what was written, printed and
  saved.
\<close>

definition touched_only :: "globals \<Rightarrow> globals \<Rightarrow> bool" where
  "touched_only s s' =
     (s'\<lparr>target := target s, optimizer := optimizer s, writer := writer s,
         console := console s, saved := saved s\<rparr> = s \<and>
      (optimizer s')\<lparr>opt_state := opt_state (optimizer s)\<rparr> = optimizer s \<and>
      requires_grad (target s') = requires_grad (target s))"

section \<open>Reference notions\<close>

text \<open>The entry \<open>(i, j)\<close> of \<open>X \<cdot> X\<^sup>T\<close> for the matrix \<open>X\<close> with rows of length \<open>m\<close>, stored
  row by row: the sum over \<open>k < m\<close> of \<open>X\<^sub>i\<^sub>k \<cdot> X\<^sub>j\<^sub>k\<close>, with no normalisation.\<close>

definition xxt_entry :: "real list \<Rightarrow> nat \<Rightarrow> nat \<Rightarrow> nat \<Rightarrow> real" where
  "xxt_entry X m i j = (\<Sum>k\<leftarrow>[0..<m]. X ! (i * m + k) * X ! (j * m + k))"

text \<open>The mean squared error between two tensors of one shape: the mean, over the
  elements, of the squared difference.\<close>

definition mse :: "tensor \<Rightarrow> tensor \<Rightarrow> real" where
  "mse a b = (\<Sum>(x, y)\<leftarrow>zip (data a) (data b). (x - y) ^ 2) / real (length (data a))"

section \<open>A small world\<close>

text \<open>
  A concrete world to evaluate the script in: the two image files of the script hold the
  same 2 \<times> 2 picture, the network is down, the network's six captured modules return
  their input, and the update rule is a plain gradient step. The loss of this world is 0
  for the initial target image and so is its gradient.
\<close>

definition sample_image :: pil_image where
  "sample_image = \<lparr>im_size = (2, 2), pixels = [255, 0, 0, 0, 255, 0, 0, 0, 255, 255, 255, 255]\<rparr>"

definition sample_layer :: layer where
  "sample_layer =
     \<lparr>parameters = [\<lparr>val = \<lparr>shape = [1], data = [1]\<rparr>, requires_grad = True, grad = None\<rparr>],
      forward = (\<lambda>ps x. x)\<rparr>"

definition sample_world :: world where
  "sample_world =
     \<lparr>requests_get = (\<lambda>url. Inl ConnectionError),
      Image_open = (\<lambda>src. case src of
                       Path p \<Rightarrow>
                         if p = ''images/pisa.jpeg'' \<or> p = ''images/ship_at_sea.jpeg''
                            \<or> p = ''http_images/cat.png''
                         then Inr sample_image else Inl FileNotFoundError
                     | BytesIO b \<Rightarrow> Inl UnidentifiedImageError),
      convert_RGB = (\<lambda>img. Inr (pixels img)),
      resample = (\<lambda>img (w, h). replicate (3 * w * h) 0),
      vgg19_features =
        [(''0'', sample_layer), (''5'', sample_layer), (''10'', sample_layer),
         (''19'', sample_layer), (''21'', sample_layer), (''28'', sample_layer)],
      autograd = (\<lambda>cfg s r. \<lparr>shape = [1, 3, 2, 2], data = replicate 12 0\<rparr>),
      adam_update = (\<lambda>rate st v g.
        (\<lparr>shape = shape v, data = map2 (\<lambda>x d. x - rate * d) (data v) (data g)\<rparr>,
         \<lparr>step_count = (case st of None \<Rightarrow> 1 | Some a \<Rightarrow> Suc (step_count a)),
          exp_avg = g, exp_avg_sq = g\<rparr>))\<rparr>"

definition sample_config :: config where
  "sample_config = default_config\<lparr>steps := 2, show_every := 2\<rparr>"

text \<open>What the script has computed in this world when the loop starts.\<close>

definition sample_tensor :: tensor where
  "sample_tensor =
     \<lparr>shape = [1, 3, 2, 2],
      data = [515 / 229, - (485 / 229), - (485 / 229), 515 / 229, - (57 / 28), 17 / 7,
              - (57 / 28), 17 / 7, - (406 / 225), - (406 / 225), 66 / 25, 66 / 25]\<rparr>"

definition sample_gram :: tensor where
  "sample_gram =
     \<lparr>shape = [3, 3],
      data = [1000900 / 52441, 165 / 3206, 376 / 3435, 165 / 3206, 7873 / 392, 517 / 1575,
              376 / 3435, 517 / 1575, 1035344 / 50625]\<rparr>"

definition sample_names :: "string list" where
  "sample_names = [''conv1_1'', ''conv2_1'', ''conv3_1'', ''conv4_1'', ''conv4_2'', ''conv5_1'']"

definition sample_globals :: globals where
  "sample_globals =
     \<lparr>vgg = freeze (vgg19_features sample_world),
      content = sample_tensor,
      style = sample_tensor,
      writer = [],
      content_features = map (\<lambda>k. (k, sample_tensor)) sample_names,
      style_features = map (\<lambda>k. (k, sample_tensor)) sample_names,
      style_grams = map (\<lambda>k. (k, sample_gram)) sample_names,
      target = \<lparr>val = sample_tensor, requires_grad = True, grad = None\<rparr>,
      optimizer = \<lparr>param_refs = [Target], lr = 0.003, opt_state = Map.empty\<rparr>,
      console = [],
      saved = []\<rparr>"

text \<open>A black picture of a given width and height.\<close>

definition photo :: "nat \<Rightarrow> nat \<Rightarrow> pil_image" where
  "photo w h = \<lparr>im_size = (w, h), pixels = replicate (3 * w * h) 0\<rparr>"

section \<open>Row-major indexing\<close>

lemma length_concat_rows:
  "length (concat (map (\<lambda>i. map (f i) [0..<p]) [0..<n])) = n * p"
  by (induction n) simp_all

lemma nth_concat_rows:
  "i < n \<Longrightarrow> j < p \<Longrightarrow> concat (map (\<lambda>i. map (f i) [0..<p]) [0..<n]) ! (i * p + j) = f i j"
proof (induction n)
  case 0
  then show ?case by simp
next
  case (Suc n)
  show ?case
  proof (cases "i < n")
    case True
    then have "i * p + j < n * p"
      using Suc.prems(2) by (metis add.commute less_Suc_eq_le mult_Suc mult_le_mono1 nat_add_left_cancel_less order_less_le_trans Suc_leI)
    with True Suc show ?thesis
      by (simp add: nth_append length_concat_rows)
  next
    case False
    with Suc.prems have "i = n" by simp
    with Suc.prems show ?thesis
      by (simp add: nth_append length_concat_rows)
  qed
qed

lemma gram_matrix_data:
  assumes "gram_matrix F = Inr G"
  obtains b d h w where "shape F = [b, d, h, w]" "d * (h * w) = numel F"
    "G = \<lparr>shape = [d, d],
          data = concat (map (\<lambda>i. map (\<lambda>j.
                   (\<Sum>k\<leftarrow>[0..<h * w]. data F ! (i * (h * w) + k) * data F ! (j * (h * w) + k)))
                 [0..<d]) [0..<d])\<rparr>"
proof -
  from assms obtain b d h w where sh: "shape F = [b, d, h, w]"
    by (auto simp: gram_matrix_def split: list.splits)
  from assms sh have ne: "d * (h * w) = numel F"
    by (auto simp: gram_matrix_def view_def split: if_splits)
  have inner: "\<And>i j. j < d \<Longrightarrow>
      (\<Sum>k\<leftarrow>[0..<h * w]. data F ! (i * (h * w) + k) *
          concat (map (\<lambda>j. map (\<lambda>i. data F ! (i * (h * w) + j)) [0..<d]) [0..<h * w]) ! (k * d + j))
      = (\<Sum>k\<leftarrow>[0..<h * w]. data F ! (i * (h * w) + k) * data F ! (j * (h * w) + k))"
    by (rule arg_cong[where f = sum_list], rule map_cong) (simp_all add: nth_concat_rows)
  from assms sh ne have "G = \<lparr>shape = [d, d],
          data = concat (map (\<lambda>i. map (\<lambda>j.
                   (\<Sum>k\<leftarrow>[0..<h * w]. data F ! (i * (h * w) + k) *
          concat (map (\<lambda>j. map (\<lambda>i. data F ! (i * (h * w) + j)) [0..<d]) [0..<h * w]) ! (k * d + j)))
                 [0..<d]) [0..<d])\<rparr>"
    by (simp add: gram_matrix_def view_def tensor_t_def torch_mm_def)
  also have "\<dots> = \<lparr>shape = [d, d],
          data = concat (map (\<lambda>i. map (\<lambda>j.
                   (\<Sum>k\<leftarrow>[0..<h * w]. data F ! (i * (h * w) + k) * data F ! (j * (h * w) + k)))
                 [0..<d]) [0..<d])\<rparr>"
  proof -
    have rows: "\<And>i. map (\<lambda>j.
                   (\<Sum>k\<leftarrow>[0..<h * w]. data F ! (i * (h * w) + k) *
          concat (map (\<lambda>j. map (\<lambda>i. data F ! (i * (h * w) + j)) [0..<d]) [0..<h * w]) ! (k * d + j)))
                 [0..<d] = map (\<lambda>j.
                   (\<Sum>k\<leftarrow>[0..<h * w]. data F ! (i * (h * w) + k) * data F ! (j * (h * w) + k)))
                 [0..<d]"
      by (rule map_cong) (simp_all add: inner)
    show ?thesis by (simp only: rows)
  qed
  finally show thesis using that sh ne by blast
qed

lemma xxt_entry_sym: "xxt_entry X m i j = xxt_entry X m j i"
  unfolding xxt_entry_def by (simp add: mult.commute)

lemma rows_transpose:
  "concat (map (\<lambda>j. map (\<lambda>i. concat (map (\<lambda>i. map (g i) [0..<d]) [0..<d]) ! (i * d + j)) [0..<d]) [0..<d])
   = concat (map (\<lambda>j. map (\<lambda>i. g i j) [0..<d]) [0..<d])"
  by (intro arg_cong[where f = concat] map_cong refl) (simp add: nth_concat_rows)

lemma gram_sym:
  assumes "gram_matrix F = Inr G"
  shows "tensor_t G = Inr G"
proof -
  from assms obtain b d h w where
    G: "G = \<lparr>shape = [d, d],
          data = concat (map (\<lambda>i. map (\<lambda>j. xxt_entry (data F) (h * w) i j) [0..<d]) [0..<d])\<rparr>"
    by (rule gram_matrix_data) (simp add: xxt_entry_def)
  have "tensor_t G = Inr \<lparr>shape = [d, d],
          data = concat (map (\<lambda>j. map (\<lambda>i. xxt_entry (data F) (h * w) i j) [0..<d]) [0..<d])\<rparr>"
    unfolding G by (simp add: tensor_t_def rows_transpose)
  also have "\<dots> = Inr G"
    unfolding G by (simp add: xxt_entry_sym[of _ _ _ "_ :: nat"])
  finally show ?thesis .
qed

lemma gram_matrix_batch1:
  assumes "shape F = [1, C, H, W]"
  shows "gram_matrix F = Inr \<lparr>shape = [C, C],
          data = concat (map (\<lambda>i. map (\<lambda>j. xxt_entry (data F) (H * W) i j) [0..<C]) [0..<C])\<rparr>"
proof -
  from assms obtain G where G: "gram_matrix F = Inr G"
    by (simp add: gram_matrix_def view_def numel_def tensor_t_def torch_mm_def)
  from G show ?thesis
    by (rule gram_matrix_data) (simp add: assms xxt_entry_def G)
qed

section \<open>The Gram matrix\<close>

text \<open>
  C8. For every feature map of shape (1, C, H, W), \<^verbatim>\<open>gram_matrix\<close> returns a C \<times> C matrix
  that equals its own transpose.
\<close>

theorem gram_symmetric:
  assumes "shape F = [1, C, H, W]"
  shows "\<exists>G. gram_matrix F = Inr G \<and> shape G = [C, C] \<and> tensor_t G = Inr G"
  using gram_matrix_batch1[OF assms] gram_sym[of F] by simp

theorem gram_symmetric_witness:
  "gram_matrix \<lparr>shape = [1, 2, 1, 2], data = [1, 2, 3, 4]\<rparr> = Inr \<lparr>shape = [2, 2], data = [5, 11, 11, 25]\<rparr>
   \<and> tensor_t \<lparr>shape = [2, 2], data = [5, 11, 11, 25]\<rparr> = Inr \<lparr>shape = [2, 2], data = [5, 11, 11, 25]\<rparr>"
proof -
  have g: "gram_matrix \<lparr>shape = [1, 2, 1, 2], data = [1, 2, 3, 4]\<rparr>
           = Inr \<lparr>shape = [2, 2], data = [5, 11, 11, 25]\<rparr>"
    by code_simp
  from gram_symmetric[of "\<lparr>shape = [1, 2, 1, 2], data = [1, 2, 3, 4]\<rparr>" 2 1 2] g
  show ?thesis by simp
qed

lemma style_loss_loop_step:
  assumes "map_of tf layer = Some F" "shape F = [1, C, H, W]" "gram_matrix F = Inr G"
    "shape G = [C, C]" "map_of grams layer = Some S" "shape S = [C, C]"
  shows "style_loss_loop tf grams ((layer, wt) # rest) acc =
         style_loss_loop tf grams rest
           (acc + wt * torch_mean (pow2 \<lparr>shape = [C, C], data = map2 (-) (data G) (data S)\<rparr>)
                    / real (C * H * W))"
  using assms by (simp add: binop_def)

text \<open>
  C3. For every feature map of shape (1, C, H, W), \<^verbatim>\<open>gram_matrix\<close> returns the C \<times> C
  matrix \<open>X \<cdot> X\<^sup>T\<close> of the (C, H\<cdot>W) reshape, entry for entry and with no normalisation; the
  division by C\<cdot>H\<cdot>W is made in the loss, on the weighted mean of the squared difference
  of the Gram matrices, when a layer is added to the style loss.
\<close>

theorem gram_matrix_unnormalised:
  assumes "shape F = [1, C, H, W]"
  shows "\<exists>G. gram_matrix F = Inr G \<and> shape G = [C, C] \<and> length (data G) = C * C \<and>
           (\<forall>i<C. \<forall>j<C. data G ! (i * C + j) = xxt_entry (data F) (H * W) i j) \<and>
           (\<forall>tf grams S layer wt rest acc.
              map_of tf layer = Some F \<longrightarrow> map_of grams layer = Some S \<longrightarrow> shape S = [C, C] \<longrightarrow>
              style_loss_loop tf grams ((layer, wt) # rest) acc =
              style_loss_loop tf grams rest
                (acc + wt * torch_mean (pow2 \<lparr>shape = [C, C], data = map2 (-) (data G) (data S)\<rparr>)
                         / real (C * H * W)))"
proof -
  let ?G = "\<lparr>shape = [C, C],
          data = concat (map (\<lambda>i. map (\<lambda>j. xxt_entry (data F) (H * W) i j) [0..<C]) [0..<C])\<rparr>"
  have g: "gram_matrix F = Inr ?G" by (rule gram_matrix_batch1[OF assms])
  have "length (data ?G) = C * C" by (simp add: length_concat_rows)
  moreover have "\<forall>i<C. \<forall>j<C. data ?G ! (i * C + j) = xxt_entry (data F) (H * W) i j"
    by (simp add: nth_concat_rows)
  moreover have "\<forall>tf grams S layer wt rest acc.
              map_of tf layer = Some F \<longrightarrow> map_of grams layer = Some S \<longrightarrow> shape S = [C, C] \<longrightarrow>
              style_loss_loop tf grams ((layer, wt) # rest) acc =
              style_loss_loop tf grams rest
                (acc + wt * torch_mean (pow2 \<lparr>shape = [C, C], data = map2 (-) (data ?G) (data S)\<rparr>)
                         / real (C * H * W))"
    using style_loss_loop_step[OF _ assms g] by simp
  ultimately show ?thesis using g by (intro exI[of _ ?G]) simp
qed

theorem gram_matrix_unnormalised_witness:
  "gram_matrix \<lparr>shape = [1, 2, 1, 2], data = [1, 2, 3, 4]\<rparr> = Inr \<lparr>shape = [2, 2], data = [5, 11, 11, 25]\<rparr>
   \<and> [5, 11, 11, 25] ! (0 * 2 + 1) = xxt_entry [1, 2, 3, 4] (1 * 2) 0 1
   \<and> style_loss_loop [(''conv1_1'', \<lparr>shape = [1, 2, 1, 2], data = [1, 2, 3, 4]\<rparr>)]
        [(''conv1_1'', \<lparr>shape = [2, 2], data = [0, 0, 0, 0]\<rparr>)] [(''conv1_1'', 1)] 0
      = Inr (223 / 4)"
proof -
  let ?F = "\<lparr>shape = [1, 2, 1, 2], data = [1, 2, 3, 4 :: real]\<rparr>"
  let ?S = "\<lparr>shape = [2, 2], data = [0, 0, 0, 0 :: real]\<rparr>"
  have g: "gram_matrix ?F = Inr \<lparr>shape = [2, 2], data = [5, 11, 11, 25]\<rparr>"
    by code_simp
  have sh: "shape ?F = [1, 2, 1, 2]" by simp
  from gram_matrix_unnormalised[OF sh] obtain G where
    G: "gram_matrix ?F = Inr G" and
    ent: "\<forall>i<2. \<forall>j<2. data G ! (i * 2 + j) = xxt_entry (data ?F) (1 * 2) i j" and
    stp: "\<forall>tf grams S layer wt rest acc.
              map_of tf layer = Some ?F \<longrightarrow> map_of grams layer = Some S \<longrightarrow> shape S = [2, 2] \<longrightarrow>
              style_loss_loop tf grams ((layer, wt) # rest) acc =
              style_loss_loop tf grams rest
                (acc + wt * torch_mean (pow2 \<lparr>shape = [2, 2], data = map2 (-) (data G) (data S)\<rparr>)
                         / real (2 * 1 * 2))"
    by blast
  from G g have G0: "G = \<lparr>shape = [2, 2], data = [5, 11, 11, 25]\<rparr>" by simp
  from ent[rule_format, of 0 1]
  have e: "[5, 11, 11, 25] ! (0 * 2 + 1) = xxt_entry [1, 2, 3, 4 :: real] (1 * 2) 0 1"
    unfolding G0 by simp
  have l: "style_loss_loop [(''conv1_1'', ?F)] [(''conv1_1'', ?S)] [(''conv1_1'', 1)] 0 =
       style_loss_loop [(''conv1_1'', ?F)] [(''conv1_1'', ?S)] []
         (0 + 1 * torch_mean (pow2 \<lparr>shape = [2, 2], data = map2 (-) (data G) (data ?S)\<rparr>)
             / real (2 * 1 * 2))"
    by (rule stp[rule_format]) simp_all
  have "style_loss_loop [(''conv1_1'', ?F)] [(''conv1_1'', ?S)] [(''conv1_1'', 1)] 0 = Inr (223 / 4)"
    unfolding l G0 by (simp add: torch_mean_def pow2_def)
  with g e show ?thesis by simp
qed

section \<open>Evaluation in the small world\<close>

lemma upt_small: "[0..<2] = [0, 1]" "[0..<3] = [0, 1, 2]" "[0..<4] = [0, 1, 2, 3]"
  by (simp_all add: upt_rec)

lemma load_sample:
  "load_image sample_world ''images/pisa.jpeg'' 400 None = Inr sample_tensor"
  "load_image sample_world ''images/ship_at_sea.jpeg'' 400 (Some [2, 2]) = Inr sample_tensor"
  by (simp_all add: sample_tensor_def load_image_def sample_world_def sample_image_def
      in_transform_def Resize_def compute_resized_output_size_def ToTensor_def Normalize_def
      norm_mean_def norm_std_def first3_def unsqueeze0_def upt_small sublist_Cons_right)

lemma gram_sample: "gram_matrix sample_tensor = Inr sample_gram"
  unfolding sample_tensor_def sample_gram_def by code_simp

lemma features_sample:
  "get_features sample_tensor (freeze (vgg19_features sample_world)) None
   = map (\<lambda>k. (k, sample_tensor)) sample_names"
  by (simp add: get_features_def freeze_def sample_world_def default_layers_def sample_layer_def
      apply_layer_def sample_names_def)

lemma shape_sample: "shape sample_tensor = [1, 3, 2, 2]"
  by (simp add: sample_tensor_def)

lemma prepare_sample: "prepare sample_world sample_config = Inr sample_globals"
  by (simp add: prepare_def sample_config_def default_config_def load_sample features_sample
      sample_globals_def sample_names_def gram_sample shape_sample Let_def)

lemma im_convert_sample:
  "im_convert sample_tensor = Inr \<lparr>shape = [2, 2, 3], data = [1, 0, 0, 0, 1, 0, 0, 0, 1, 1, 1, 1]\<rparr>"
  unfolding sample_tensor_def by code_simp

section \<open>The exported image\<close>

lemma im_convert_clipped:
  assumes "im_convert t = Inr img"
  shows "\<forall>x\<in>set (data img). 0 \<le> x \<and> x \<le> 1"
  using assms
  by (auto simp: im_convert_def clip_def Let_def split: sum.splits)

lemma broadcast_shape_hw3: "broadcast_shape err [h, w, 3] [3] = Inr [h, w, 3]"
  by (simp add: broadcast_shape_def)

lemma map2_concat:
  assumes "\<forall>x\<in>set xs. length (F x) = length (G x)"
  shows "map2 f (concat (map F xs)) (concat (map G xs)) = concat (map (\<lambda>x. map2 f (F x) (G x)) xs)"
  using assms by (induction xs) simp_all

lemma nth_concat_blocks:
  assumes "\<forall>i<n. length (g i) = p" "i < n" "j < p"
  shows "concat (map g [0..<n]) ! (i * p + j) = g i ! j"
  using assms
proof (induction n)
  case 0
  then show ?case by simp
next
  case (Suc n)
  have len: "length (concat (map g [0..<n])) = n * p"
    using Suc.prems(1) by (induction n) simp_all
  show ?case
  proof (cases "i < n")
    case True
    then have "i * p + j < n * p"
      using Suc.prems(3)
      by (metis add.commute mult_Suc mult_le_mono1 nat_add_left_cancel_less order_less_le_trans Suc_leI)
    with True Suc show ?thesis
      by (simp add: nth_append len)
  next
    case False
    with Suc.prems have "i = n" by simp
    with Suc.prems show ?thesis
      by (simp add: nth_append len)
  qed
qed

lemma product_lists3:
  "product_lists [as, bs, cs] =
   concat (map (\<lambda>i. concat (map (\<lambda>j. map (\<lambda>k. [i, j, k]) cs) bs)) as)"
  by (simp add: map_concat comp_def)

lemma broadcast_own_shape3:
  assumes "h \<noteq> 1" "w \<noteq> 1"
  shows "broadcast_to \<lparr>shape = [h, w, 3],
            data = concat (map (\<lambda>i. concat (map (\<lambda>j. map (\<lambda>k. A i j k) [0..<3]) [0..<w])) [0..<h])\<rparr>
           [h, w, 3]
         = concat (map (\<lambda>i. concat (map (\<lambda>j. map (\<lambda>k. A i j k) [0..<3]) [0..<w])) [0..<h])"
proof -
  let ?D = "concat (map (\<lambda>i. concat (map (\<lambda>j. map (\<lambda>k. A i j k) [0..<3]) [0..<w])) [0..<h])"
  have inner: "length (concat (map (\<lambda>j. map (\<lambda>k. A i j k) [0..<3]) [0..<w])) = w * 3" for i
    by (simp add: length_concat_rows)
  have nth: "?D ! (i * (w * 3) + (j * 3 + k)) = A i j k" if "i < h" "j < w" "k < 3" for i j k
  proof -
    have "?D ! (i * (w * 3) + (j * 3 + k))
          = concat (map (\<lambda>j. map (\<lambda>k. A i j k) [0..<3]) [0..<w]) ! (j * 3 + k)"
    proof (rule nth_concat_blocks)
      show "\<forall>i<h. length (concat (map (\<lambda>j. map (\<lambda>k. A i j k) [0..<3]) [0..<w])) = w * 3"
        by (simp add: inner)
      show "i < h" by fact
      show "j * 3 + k < w * 3" using that by linarith
    qed
    also have "\<dots> = A i j k"
      using that by (simp add: nth_concat_rows)
    finally show ?thesis .
  qed
  have "broadcast_to \<lparr>shape = [h, w, 3], data = ?D\<rparr> [h, w, 3]
        = concat (map (\<lambda>i. concat (map (\<lambda>j. map (\<lambda>k. ?D ! (i * (w * 3) + (j * 3 + k))) [0..<3])
                    [0..<w])) [0..<h])"
    unfolding broadcast_to_def product_lists3
    using assms by (simp add: map_concat comp_def)
  also have "\<dots> = ?D"
    by (intro arg_cong[where f = concat] map_cong refl) (simp add: nth)
  finally show ?thesis .
qed

lemma broadcast_channels:
  "broadcast_to \<lparr>shape = [3], data = d\<rparr> [h, w, 3]
   = concat (map (\<lambda>i. concat (map (\<lambda>j. map (\<lambda>k. d ! k) [0..<3]) [0..<w])) [0..<h])"
  unfolding broadcast_to_def product_lists3
  by (simp add: map_concat comp_def)

lemma map2_map_same: "map2 f (map a ks) (map b ks) = map (\<lambda>k. f (a k) (b k)) ks"
  by (induction ks) simp_all

lemma map2_rows3:
  "map2 f (concat (map (\<lambda>i. concat (map (\<lambda>j. map (\<lambda>k. A i j k) ks) js)) is))
          (concat (map (\<lambda>i. concat (map (\<lambda>j. map (\<lambda>k. B i j k) ks) js)) is))
   = concat (map (\<lambda>i. concat (map (\<lambda>j. map (\<lambda>k. f (A i j k) (B i j k)) ks) js)) is)"
proof -
  have inner: "map2 f (concat (map (\<lambda>j. map (\<lambda>k. A i j k) ks) js))
                      (concat (map (\<lambda>j. map (\<lambda>k. B i j k) ks) js))
               = concat (map (\<lambda>j. map (\<lambda>k. f (A i j k) (B i j k)) ks) js)" for i
    by (subst map2_concat) (simp_all add: map2_map_same del: zip_map_map map_map)
  have len: "length (concat (map (\<lambda>j. map (\<lambda>k. A i j k) ks) js))
             = length (concat (map (\<lambda>j. map (\<lambda>k. B i j k) ks) js))" for i
    by (simp add: length_concat comp_def)
  show ?thesis
    by (subst map2_concat) (simp_all add: len inner)
qed

lemma im_convert_explicit:
  assumes "shape t = [1, 3, h, w]" "h \<noteq> 1" "w \<noteq> 1"
  shows "im_convert t =
         Inr \<lparr>shape = [h, w, 3],
              data = concat (map (\<lambda>i. concat (map (\<lambda>j. map (\<lambda>k.
                       min 1 (max 0 (data t ! ((k * h + i) * w + j) * data norm_std ! k
                                     + data norm_mean ! k)))
                     [0..<3]) [0..<w])) [0..<h])\<rparr>"
proof -
  let ?X = "\<lambda>i j k. data t ! ((k * h + i) * w + j)"
  have tr: "transpose_120 (squeeze t) =
        Inr \<lparr>shape = [h, w, 3],
             data = concat (map (\<lambda>i. concat (map (\<lambda>j. map (\<lambda>k. ?X i j k) [0..<3]) [0..<w])) [0..<h])\<rparr>"
    using assms by (simp add: squeeze_def transpose_120_def)
  have mul: "binop ValueError (*)
        \<lparr>shape = [h, w, 3],
         data = concat (map (\<lambda>i. concat (map (\<lambda>j. map (\<lambda>k. ?X i j k) [0..<3]) [0..<w])) [0..<h])\<rparr>
        norm_std =
        Inr \<lparr>shape = [h, w, 3],
             data = concat (map (\<lambda>i. concat (map (\<lambda>j. map (\<lambda>k. ?X i j k * data norm_std ! k)
                      [0..<3]) [0..<w])) [0..<h])\<rparr>"
    using broadcast_own_shape3[OF assms(2,3), of ?X]
    by (simp add: binop_def norm_std_def broadcast_shape_def broadcast_channels map2_rows3)
  have add: "binop ValueError (+)
        \<lparr>shape = [h, w, 3],
         data = concat (map (\<lambda>i. concat (map (\<lambda>j. map (\<lambda>k. ?X i j k * data norm_std ! k)
                      [0..<3]) [0..<w])) [0..<h])\<rparr>
        norm_mean =
        Inr \<lparr>shape = [h, w, 3],
             data = concat (map (\<lambda>i. concat (map (\<lambda>j. map (\<lambda>k. ?X i j k * data norm_std ! k
                                                               + data norm_mean ! k)
                      [0..<3]) [0..<w])) [0..<h])\<rparr>"
    using broadcast_own_shape3[OF assms(2,3), of "\<lambda>i j k. ?X i j k * data norm_std ! k"]
    by (simp add: binop_def norm_mean_def broadcast_shape_def broadcast_channels map2_rows3)
  show ?thesis
    unfolding im_convert_def Let_def tr sum.case mul add
    by (simp add: clip_def map_concat comp_def)
qed

text \<open>
  C7. Whatever the target image holds, the image \<^verbatim>\<open>im_convert\<close> makes of it, which line
  186 saves as \<^verbatim>\<open>target.png\<close>, has every value in [0, 1]: the clip is the last step. For
  a target of shape (1, 3, h, w), with \<open>h\<close> and \<open>w\<close> other than 1, the image has shape
  (h, w, 3) and its value at row \<open>i\<close>, column \<open>j\<close>, channel \<open>k\<close> is the target's value
  there, times the standard deviation of the channel plus its mean, clipped to [0, 1].
\<close>

theorem exported_pixels_in_unit_interval:
  "(\<forall>img. im_convert (val (target s)) = Inr img \<longrightarrow>
      export_image s = (s\<lparr>saved := saved s @ [(''target.png'', img)]\<rparr>, None) \<and>
      (\<forall>x\<in>set (data img). 0 \<le> x \<and> x \<le> 1)) \<and>
   (\<forall>h w. shape (val (target s)) = [1, 3, h, w] \<and> h \<noteq> 1 \<and> w \<noteq> 1 \<longrightarrow>
      im_convert (val (target s)) =
        Inr \<lparr>shape = [h, w, 3],
             data = concat (map (\<lambda>i. concat (map (\<lambda>j. map (\<lambda>k.
                      min 1 (max 0 (data (val (target s)) ! ((k * h + i) * w + j) * data norm_std ! k
                                    + data norm_mean ! k)))
                    [0..<3]) [0..<w])) [0..<h])\<rparr>) \<and>
   (\<forall>s'. export_image s = (s', None) \<longrightarrow>
      (\<exists>img. im_convert (val (target s)) = Inr img \<and> saved s' = saved s @ [(''target.png'', img)]))"
proof (intro conjI allI impI)
  fix img assume c: "im_convert (val (target s)) = Inr img"
  then show "export_image s = (s\<lparr>saved := saved s @ [(''target.png'', img)]\<rparr>, None)"
    by (simp add: export_image_def)
  from c show "\<forall>x\<in>set (data img). 0 \<le> x \<and> x \<le> 1"
    by (rule im_convert_clipped)
next
  fix h w assume "shape (val (target s)) = [1, 3, h, w] \<and> h \<noteq> 1 \<and> w \<noteq> 1"
  then have "shape (val (target s)) = [1, 3, h, w]" "h \<noteq> 1" "w \<noteq> 1"
    by blast+
  then show "im_convert (val (target s)) =
        Inr \<lparr>shape = [h, w, 3],
             data = concat (map (\<lambda>i. concat (map (\<lambda>j. map (\<lambda>k.
                      min 1 (max 0 (data (val (target s)) ! ((k * h + i) * w + j) * data norm_std ! k
                                    + data norm_mean ! k)))
                    [0..<3]) [0..<w])) [0..<h])\<rparr>"
    by (rule im_convert_explicit)
next
  fix s' assume "export_image s = (s', None)"
  then show "\<exists>img. im_convert (val (target s)) = Inr img \<and>
                 saved s' = saved s @ [(''target.png'', img)]"
    by (auto simp: export_image_def split: sum.splits)
qed

theorem exported_pixels_in_unit_interval_witness:
  "im_convert (val (target sample_globals)) =
     Inr \<lparr>shape = [2, 2, 3], data = [1, 0, 0, 0, 1, 0, 0, 0, 1, 1, 1, 1]\<rparr> \<and>
   saved (fst (export_image sample_globals)) =
     [(''target.png'', \<lparr>shape = [2, 2, 3], data = [1, 0, 0, 0, 1, 0, 0, 0, 1, 1, 1, 1]\<rparr>)] \<and>
   snd (export_image sample_globals) = None \<and>
   list_all (\<lambda>x. 0 \<le> x \<and> x \<le> 1) [1, 0, 0, 0, 1, 0, 0, 0, 1, 1, 1, 1 :: real]"
proof -
  have t: "val (target sample_globals) = sample_tensor"
    by (simp add: sample_globals_def)
  have c: "im_convert (val (target sample_globals)) =
     Inr \<lparr>shape = [2, 2, 3], data = [1, 0, 0, 0, 1, 0, 0, 0, 1, 1, 1, 1]\<rparr>"
    by (simp add: t im_convert_sample)
  note A = exported_pixels_in_unit_interval[of sample_globals, THEN conjunct1, rule_format, OF c]
  have s0: "saved sample_globals = []"
    by (simp add: sample_globals_def)
  from A[THEN conjunct2] have "list_all (\<lambda>x. 0 \<le> x \<and> x \<le> 1) [1, 0, 0, 0, 1, 0, 0, 0, 1, 1, 1, 1 :: real]"
    by (simp only: list_all_iff tensor.simps)
  with c A[THEN conjunct1] s0 show ?thesis by simp
qed

section \<open>Loading images\<close>

lemma in_transform_shape:
  assumes "im_size im = (w, h)" "compute_resized_output_size (h, w) sz = Inr (nh, nw)"
  shows "\<exists>a. in_transform W sz im = Inr a \<and> shape a = [3, nh, nw]"
  using assms
  by (simp add: in_transform_def Resize_def Normalize_def ToTensor_def norm_mean_def)

lemma load_image_opened:
  assumes "im_size im = (w, h)" "0 < w" "0 < h"
    and "(if sublist ''http'' p
          then (case requests_get W p of Inl e \<Rightarrow> Inl e | Inr c \<Rightarrow> Image_open W (BytesIO c))
          else Image_open W (Path p)) = Inr im"
    and "convert_RGB W im = Inr rgb"
  shows "\<exists>t. load_image W p m None = Inr t \<and>
           shape t = (let s = (if m < max w h then m else max w h)
                      in if w \<le> h then [1, 3, (s * h) div w, s] else [1, 3, s, (s * w) div h])"
proof -
  define s where "s = (if m < max w h then m else max w h)"
  define nh where "nh = (if w \<le> h then (s * h) div w else s)"
  define nw where "nw = (if w \<le> h then s else (s * w) div h)"
  have c: "compute_resized_output_size (h, w) [s] = Inr (nh, nw)"
    using assms(2,3) by (simp add: compute_resized_output_size_def nh_def nw_def)
  have sz: "im_size (im\<lparr>pixels := rgb\<rparr>) = (w, h)"
    using assms(1) by simp
  from in_transform_shape[OF sz c] obtain a where
    a: "in_transform W [s] (im\<lparr>pixels := rgb\<rparr>) = Inr a" "shape a = [3, nh, nw]"
    by blast
  have "load_image W p m None =
        (case first3 a of Inl e \<Rightarrow> Inl e | Inr img \<Rightarrow> Inr (unsqueeze0 img))"
    unfolding load_image_def assms(4) using a(1) assms(1,5)
    by (auto simp: s_def Let_def max_def split: if_splits)
  then show ?thesis using a(2)
    by (auto simp: first3_def unsqueeze0_def s_def nh_def nw_def Let_def)
qed

lemma in_transform_upd [simp]:
  "in_transform (W\<lparr>Image_open := f\<rparr>) sz im = in_transform W sz im"
  "in_transform (W\<lparr>requests_get := g\<rparr>) sz im = in_transform W sz im"
  by (simp_all add: in_transform_def Resize_def split: prod.splits sum.splits)

lemma load_image_remote:
  assumes "sublist ''http'' p"
  shows "load_image (W\<lparr>Image_open := (\<lambda>src. case src of Path q \<Rightarrow> files q
                                            | BytesIO b \<Rightarrow> Image_open W src)\<rparr>) p m sh
         = load_image W p m sh"
    and "requests_get W p = Inl e \<Longrightarrow> load_image W p m sh = Inl e"
  using assms by (simp_all add: load_image_def split: sum.splits)

lemma load_image_local:
  assumes "\<not> sublist ''http'' p"
  shows "load_image (W\<lparr>requests_get := net,
                       Image_open := (\<lambda>src. case src of Path q \<Rightarrow> Image_open W src
                                            | BytesIO b \<Rightarrow> mem b)\<rparr>) p m sh
         = load_image W p m sh"
    and "Image_open W (Path p) = Inl e \<Longrightarrow> load_image W p m sh = Inl e"
  using assms by (simp_all add: load_image_def split: sum.splits)



text \<open>
  C1. Without an explicit shape the \<^emph>\<open>larger\<close> side of the returned tensor is to be
  \<open>min(max_size, original larger side)\<close>, so that no image is upsized. The code passes
  that number to \<^verbatim>\<open>transforms.Resize\<close> as an integer, which matches the
  \<^emph>\<open>smaller\<close> side to it (\<open>load_image_opened\<close>). An 800 \<times> 600 picture loaded with
  \<^verbatim>\<open>max_size = 400\<close> comes back 533 wide and 400 high, and a 300 \<times> 200 picture comes
  back 450 wide and 300 high: larger than it was, and larger than \<^verbatim>\<open>max_size\<close>, against
  the docstring of \<^verbatim>\<open>load_image\<close>.
\<close>

theorem load_image_larger_side_not_capped:
  "(\<exists>t. load_image (sample_world\<lparr>Image_open := (\<lambda>src. Inr (photo 800 600))\<rparr>)
          ''images/pisa.jpeg'' 400 None = Inr t \<and> shape t = [1, 3, 400, 533]) \<and>
   (\<exists>t. load_image (sample_world\<lparr>Image_open := (\<lambda>src. Inr (photo 300 200))\<rparr>)
          ''images/pisa.jpeg'' 400 None = Inr t \<and> shape t = [1, 3, 300, 450])"
proof -
  have h: "\<not> sublist ''http'' ''images/pisa.jpeg''"
    by (simp add: sublist_Cons_right)
  have a: "im_size (photo 800 600) = (800, 600)" and b: "im_size (photo 300 200) = (300, 200)"
    by (simp_all add: photo_def)
  have cv: "convert_RGB (sample_world\<lparr>Image_open := f\<rparr>) im = Inr (pixels im)" for f im
    by (simp add: sample_world_def)
  have "\<exists>t. load_image (sample_world\<lparr>Image_open := (\<lambda>src. Inr (photo 800 600))\<rparr>)
          ''images/pisa.jpeg'' 400 None = Inr t \<and> shape t = [1, 3, 400, 533]"
    using load_image_opened[OF a, where p = "''images/pisa.jpeg''"
        and W = "sample_world\<lparr>Image_open := (\<lambda>src. Inr (photo 800 600))\<rparr>" and m = 400
        and rgb = "pixels (photo 800 600)"] h cv
    by simp
  moreover have "\<exists>t. load_image (sample_world\<lparr>Image_open := (\<lambda>src. Inr (photo 300 200))\<rparr>)
          ''images/pisa.jpeg'' 400 None = Inr t \<and> shape t = [1, 3, 300, 450]"
    using load_image_opened[OF b, where p = "''images/pisa.jpeg''"
        and W = "sample_world\<lparr>Image_open := (\<lambda>src. Inr (photo 300 200))\<rparr>" and m = 400
        and rgb = "pixels (photo 300 200)"] h cv
    by simp
  ultimately show ?thesis by blast
qed

text \<open>
  C9. \<^verbatim>\<open>load_image\<close> takes its source for a URL exactly when the string contains
  \<^verbatim>\<open>http\<close> somewhere. Then no file is read, whatever the files are, and a failure of the
  request is the result, also for a path such as \<^verbatim>\<open>http_images/cat.png\<close>. Otherwise the
  network and in-memory decoding play no part, and a failure to open the path is the
  result.
\<close>

theorem load_image_remote_iff_http:
  "(sublist ''http'' p \<longleftrightarrow> (\<exists>pre post. p = pre @ ''http'' @ post)) \<and>
   (sublist ''http'' p \<longrightarrow>
      load_image (W\<lparr>Image_open := (\<lambda>src. case src of Path q \<Rightarrow> files q
                                            | BytesIO b \<Rightarrow> Image_open W src)\<rparr>) p m sh
        = load_image W p m sh \<and>
      (\<forall>e. requests_get W p = Inl e \<longrightarrow> load_image W p m sh = Inl e)) \<and>
   (\<not> sublist ''http'' p \<longrightarrow>
      load_image (W\<lparr>requests_get := net,
                    Image_open := (\<lambda>src. case src of Path q \<Rightarrow> Image_open W src
                                         | BytesIO b \<Rightarrow> mem b)\<rparr>) p m sh
        = load_image W p m sh \<and>
      (\<forall>e. Image_open W (Path p) = Inl e \<longrightarrow> load_image W p m sh = Inl e)) \<and>
   sublist ''http'' ''http_images/cat.png''"
proof -
  have "sublist ''http'' ''http_images/cat.png''"
    by (simp add: sublist_Cons_right)
  moreover have "sublist ''http'' p \<longleftrightarrow> (\<exists>pre post. p = pre @ ''http'' @ post)"
    by (simp only: sublist_def)
  ultimately show ?thesis
    using load_image_remote(1)[where p = p and W = W and files = files and m = m and sh = sh]
      load_image_remote(2)[where p = p and W = W and m = m and sh = sh]
      load_image_local(1)[where p = p and W = W and net = net and mem = mem and m = m and sh = sh]
      load_image_local(2)[where p = p and W = W and m = m and sh = sh]
    by blast
qed

theorem load_image_remote_iff_http_witness:
  "sublist ''http'' ''http_images/cat.png'' \<and>
   Image_open sample_world (Path ''http_images/cat.png'') = Inr sample_image \<and>
   requests_get sample_world ''http_images/cat.png'' = Inl ConnectionError \<and>
   load_image sample_world ''http_images/cat.png'' 400 None = Inl ConnectionError \<and>
   \<not> sublist ''http'' ''missing.png'' \<and>
   Image_open sample_world (Path ''missing.png'') = Inl FileNotFoundError \<and>
   load_image sample_world ''missing.png'' 400 None = Inl FileNotFoundError"
proof -
  have a: "sublist ''http'' ''http_images/cat.png''" "\<not> sublist ''http'' ''missing.png''"
    by (simp_all add: sublist_Cons_right)
  have b: "requests_get sample_world ''http_images/cat.png'' = Inl ConnectionError"
    "Image_open sample_world (Path ''http_images/cat.png'') = Inr sample_image"
    "Image_open sample_world (Path ''missing.png'') = Inl FileNotFoundError"
    by (simp_all add: sample_world_def)
  note T1 = load_image_remote_iff_http[where p = "''http_images/cat.png''" and W = sample_world and m = 400 and sh = None]
  note T2 = load_image_remote_iff_http[where p = "''missing.png''" and W = sample_world and m = 400 and sh = None]
  from T1 a(1) b(1) have "load_image sample_world ''http_images/cat.png'' 400 None = Inl ConnectionError"
    by blast
  moreover from T2 a(2) b(3) have "load_image sample_world ''missing.png'' 400 None = Inl FileNotFoundError"
    by blast
  ultimately show ?thesis using a b by simp
qed




section \<open>The loss as a formula\<close>

lemma sum_sq_diff:
  "length xs = length ys \<Longrightarrow>
   sum_list (map (\<lambda>x. x ^ 2) (map2 (-) xs ys)) = (\<Sum>(x, y)\<leftarrow>zip xs ys. (x - y) ^ 2)"
  for xs ys :: "real list"
  by (induction xs ys rule: list_induct2) simp_all

lemma binop_same_shape:
  "shape a = shape b \<Longrightarrow>
   binop err f a b = Inr \<lparr>shape = shape a, data = map2 f (data a) (data b)\<rparr>"
  by (simp add: binop_def)

lemma mean_sq_diff:
  assumes "length (data a) = length (data b)"
  shows "torch_mean (pow2 \<lparr>shape = shp, data = map2 (-) (data a) (data b)\<rparr>) = mse a b"
  unfolding torch_mean_def pow2_def mse_def
  using sum_sq_diff[OF assms] assms by (simp del: map_map)

lemma content_loss_mse:
  assumes "map_of tf ''conv4_2'' = Some T" "map_of cf ''conv4_2'' = Some K"
    "shape T = shape K" "length (data T) = length (data K)"
  shows "content_loss_of tf cf = Inr (mse T K)"
  using assms(1,2) binop_same_shape[OF assms(3)] mean_sq_diff[OF assms(4)]
  by (simp add: content_loss_of_def)

lemma gram_matrix_length:
  assumes "shape F = [1, C, H, W]" "gram_matrix F = Inr G"
  shows "shape G = [C, C]" "length (data G) = C * C"
proof -
  from gram_matrix_batch1[OF assms(1)] assms(2)
  have "G = \<lparr>shape = [C, C],
          data = concat (map (\<lambda>i. map (\<lambda>j. xxt_entry (data F) (H * W) i j) [0..<C]) [0..<C])\<rparr>"
    by simp
  then show "shape G = [C, C]" "length (data G) = C * C"
    by (simp_all add: length_concat_rows)
qed

lemma style_loss_loop_sum:
  assumes "\<forall>(l, wt)\<in>set sws.
             map_of tf l = Some (F l) \<and> shape (F l) = [1, C l, H l, W l] \<and>
             gram_matrix (F l) = Inr (G l) \<and>
             map_of grams l = Some (S l) \<and> shape (S l) = [C l, C l] \<and>
             length (data (S l)) = C l * C l"
  shows "style_loss_loop tf grams sws acc =
         Inr (acc + (\<Sum>(l, wt)\<leftarrow>sws. wt * mse (G l) (S l) / real (C l * H l * W l)))"
  using assms
proof (induction sws arbitrary: acc)
  case Nil
  then show ?case by simp
next
  case (Cons a sws)
  obtain l wt where a: "a = (l, wt)" by (cases a)
  from Cons.prems a have h: "map_of tf l = Some (F l)" "shape (F l) = [1, C l, H l, W l]"
    "gram_matrix (F l) = Inr (G l)" "map_of grams l = Some (S l)" "shape (S l) = [C l, C l]"
    "length (data (S l)) = C l * C l"
    by auto
  note g = gram_matrix_length[OF h(2,3)]
  have sh: "shape (G l) = shape (S l)" and len: "length (data (G l)) = length (data (S l))"
    using g h by simp_all
  have step: "style_loss_loop tf grams ((l, wt) # sws) acc =
        style_loss_loop tf grams sws (acc + wt * mse (G l) (S l) / real (C l * H l * W l))"
    using h g binop_same_shape[OF sh] mean_sq_diff[OF len] by simp
  have "style_loss_loop tf grams sws (acc + wt * mse (G l) (S l) / real (C l * H l * W l)) =
        Inr (acc + wt * mse (G l) (S l) / real (C l * H l * W l) +
             (\<Sum>(l, wt)\<leftarrow>sws. wt * mse (G l) (S l) / real (C l * H l * W l)))"
    by (rule Cons.IH) (use Cons.prems in auto)
  with step show ?case by (simp add: a)
qed

lemma total_loss_value:
  assumes "map_of tf ''conv4_2'' = Some T" "map_of cf ''conv4_2'' = Some K"
    "shape T = shape K" "length (data T) = length (data K)"
    and "\<forall>(l, wt)\<in>set (style_weights cfg).
             map_of tf l = Some (F l) \<and> shape (F l) = [1, C l, H l, W l] \<and>
             gram_matrix (F l) = Inr (G l) \<and>
             map_of grams l = Some (S l) \<and> shape (S l) = [C l, C l] \<and>
             length (data (S l)) = C l * C l"
  shows "total_loss_of cfg tf cf grams =
         Inr (content_weight cfg * mse T K +
              style_weight cfg *
                (\<Sum>(l, wt)\<leftarrow>style_weights cfg. wt * mse (G l) (S l) / real (C l * H l * W l)))"
  using content_loss_mse[OF assms(1-4)] style_loss_loop_sum[OF assms(5), of 0]
  by (simp add: total_loss_of_def)

section \<open>The loop: what it writes and what it leaves alone\<close>

lemma frozen_freeze: "frozen (freeze model)"
  by (induction model) (auto simp: frozen_def freeze_def list_all_iff)

lemma zero_grad_target:
  "param_refs (optimizer s) = [Target] \<Longrightarrow> zero_grad s = s\<lparr>target := (target s)\<lparr>grad := None\<rparr>\<rparr>"
  by (simp add: zero_grad_def)

lemma accumulate_frozen: "\<not> requires_grad p \<Longrightarrow> accumulate g p = p"
  by (simp add: accumulate_def)

lemma backward_frozen:
  assumes "frozen (vgg s)"
  shows "backward W cfg s = s\<lparr>target := accumulate (autograd W cfg s Target) (target s)\<rparr>"
proof -
  have "map (\<lambda>(n, l).
           (n, l\<lparr>parameters :=
                  map (\<lambda>k. accumulate (autograd W cfg s (Weight n k)) (parameters l ! k))
                    [0..<length (parameters l)]\<rparr>)) (vgg s) = vgg s"
  proof (rule map_idI)
    fix x assume x: "x \<in> set (vgg s)"
    obtain n l where nl: "x = (n, l)" by (cases x)
    from assms x nl have fr: "\<forall>p\<in>set (parameters l). \<not> requires_grad p"
      by (auto simp: frozen_def list_all_iff)
    have "map (\<lambda>k. accumulate (autograd W cfg s (Weight n k)) (parameters l ! k))
            [0..<length (parameters l)] = map (\<lambda>k. parameters l ! k) [0..<length (parameters l)]"
      by (rule map_cong) (simp_all add: fr accumulate_frozen)
    then show "(case x of (n, l) \<Rightarrow>
           (n, l\<lparr>parameters :=
                  map (\<lambda>k. accumulate (autograd W cfg s (Weight n k)) (parameters l ! k))
                    [0..<length (parameters l)]\<rparr>)) = x"
      by (simp add: nl map_nth)
  qed
  then show ?thesis by (simp add: backward_def)
qed

lemma optimizer_step_target:
  assumes "param_refs (optimizer s) = [Target]"
  shows "optimizer_step W s =
     (case grad (target s) of
        None \<Rightarrow> s
      | Some g \<Rightarrow>
          s\<lparr>optimizer := (optimizer s)\<lparr>opt_state := (opt_state (optimizer s))
                 (Target \<mapsto> snd (adam_update W (lr (optimizer s)) (opt_state (optimizer s) Target)
                                   (val (target s)) g))\<rparr>,
            target := (target s)\<lparr>val := fst (adam_update W (lr (optimizer s))
                                   (opt_state (optimizer s) Target) (val (target s)) g)\<rparr>\<rparr>)"
  using assms by (simp add: optimizer_step_def split: option.splits prod.splits)

lemma scalars_append: "scalars (xs @ ys) = scalars xs @ scalars ys"
  by (induction xs rule: scalars.induct) simp_all

lemma figure_steps_append: "figure_steps (xs @ ys) = figure_steps xs @ figure_steps ys"
  by (induction xs rule: figure_steps.induct) simp_all

lemma fold_keeps:
  assumes "\<And>r s. P (f r s) = P s"
  shows "P (fold f rs s) = P s"
  by (induction rs arbitrary: s) (simp_all add: assms)

lemma put_param_sinks:
  "writer (put_param r p s) = writer s" "console (put_param r p s) = console s"
  "saved (put_param r p s) = saved s"
  by (cases r; simp)+

lemma zero_grad_sinks:
  "writer (zero_grad s) = writer s" "console (zero_grad s) = console s"
  "saved (zero_grad s) = saved s"
  unfolding zero_grad_def
  by (rule fold_keeps; simp add: put_param_sinks split: option.splits)+

lemma backward_sinks:
  "writer (backward W cfg s) = writer s" "console (backward W cfg s) = console s"
  "saved (backward W cfg s) = saved s"
  by (simp_all add: backward_def)

lemma optimizer_step_sinks:
  "writer (optimizer_step W s) = writer s" "console (optimizer_step W s) = console s"
  "saved (optimizer_step W s) = saved s"
  unfolding optimizer_step_def
  by (rule fold_keeps; simp add: put_param_sinks split: option.splits prod.splits)+

lemma iteration_log:
  assumes "iteration W cfg ii s = (s', r)"
  shows "length (scalars (writer s')) \<le> Suc (length (scalars (writer s)))"
    and "saved s' = saved s"
    and "r = None \<Longrightarrow>
      \<exists>L. total_loss_of cfg (get_features (val (target s)) (vgg s) None)
             (content_features s) (style_grams s) = Inr L \<and>
          scalars (writer s') = scalars (writer s) @ [(L, ii)] \<and>
          figure_steps (writer s') =
            figure_steps (writer s) @ (if ii mod show_every cfg = 0 then [ii] else []) \<and>
          console s' = console s @ (if ii mod show_every cfg = 0 then [L] else [])"
  using assms
  by (auto simp: iteration_def Let_def scalars_append figure_steps_append
      zero_grad_sinks backward_sinks optimizer_step_sinks
      split: sum.splits if_splits)

lemma iteration_frame:
  assumes "param_refs (optimizer s) = [Target]" "frozen (vgg s)" "iteration W cfg ii s = (s', r)"
  shows "touched_only s s'" "param_refs (optimizer s') = [Target]" "frozen (vgg s')"
    "saved s' = saved s"
  using assms
  by (auto simp: iteration_def touched_only_def zero_grad_target backward_frozen
      optimizer_step_target accumulate_def Let_def
      split: sum.splits option.splits if_splits)

lemma touched_only_iff:
  "touched_only s s' \<longleftrightarrow>
     vgg s' = vgg s \<and> content s' = content s \<and> style s' = style s \<and>
     content_features s' = content_features s \<and> style_features s' = style_features s \<and>
     style_grams s' = style_grams s \<and>
     param_refs (optimizer s') = param_refs (optimizer s) \<and> lr (optimizer s') = lr (optimizer s) \<and>
     requires_grad (target s') = requires_grad (target s)"
proof -
  obtain a1 a2 a3 a4 a5 a6 a7 a8 a9 a10 a11 where s: "s = \<lparr>vgg = a1, content = a2, style = a3,
      writer = a4, content_features = a5, style_features = a6, style_grams = a7, target = a8,
      optimizer = a9, console = a10, saved = a11\<rparr>"
    by (cases s) simp
  obtain b1 b2 b3 b4 b5 b6 b7 b8 b9 b10 b11 where s': "s' = \<lparr>vgg = b1, content = b2, style = b3,
      writer = b4, content_features = b5, style_features = b6, style_grams = b7, target = b8,
      optimizer = b9, console = b10, saved = b11\<rparr>"
    by (cases s') simp
  obtain c1 c2 c3 where o: "a9 = \<lparr>param_refs = c1, lr = c2, opt_state = c3\<rparr>"
    by (cases a9) simp
  obtain d1 d2 d3 where o': "b9 = \<lparr>param_refs = d1, lr = d2, opt_state = d3\<rparr>"
    by (cases b9) simp
  show ?thesis
    unfolding touched_only_def s s' o o' by auto
qed

lemma touched_only_refl: "touched_only s s"
  by (simp add: touched_only_iff)

lemma touched_only_trans: "touched_only s s1 \<Longrightarrow> touched_only s1 s2 \<Longrightarrow> touched_only s s2"
  by (simp add: touched_only_iff)

lemma train_loop_frame:
  assumes "param_refs (optimizer s) = [Target]" "frozen (vgg s)" "train_loop W cfg is s = (s', r)"
  shows "touched_only s s' \<and> param_refs (optimizer s') = [Target] \<and> frozen (vgg s') \<and>
         saved s' = saved s"
  using assms
proof (induction "is" arbitrary: s)
  case Nil
  then show ?case by (simp add: touched_only_refl)
next
  case (Cons ii rest)
  obtain s1 r1 where it: "iteration W cfg ii s = (s1, r1)" by (cases "iteration W cfg ii s")
  note f = iteration_frame[OF Cons.prems(1,2) it]
  show ?case
  proof (cases r1)
    case None
    with it Cons.prems(3) have "train_loop W cfg rest s1 = (s', r)" by simp
    from Cons.IH[OF f(2,3) this] f(1,4) show ?thesis
      by (auto intro: touched_only_trans)
  next
    case (Some e)
    with it Cons.prems(3) have "s' = s1" by simp
    with f show ?thesis by simp
  qed
qed



lemma prepare_props:
  assumes "prepare W cfg = Inr s0"
  shows "vgg s0 = freeze (vgg19_features W)" "param_refs (optimizer s0) = [Target]"
    "writer s0 = []" "console s0 = []" "saved s0 = []"
  using assms by (auto simp: prepare_def Let_def split: sum.splits)

lemma freeze_vals:
  "map (\<lambda>(n, l). (n, map val (parameters l))) (freeze model)
   = map (\<lambda>(n, l). (n, map val (parameters l))) model"
  by (induction model) (auto simp: freeze_def comp_def)

lemma export_image_props:
  assumes "export_image s = (s', r)"
  shows "touched_only s s'" "writer s' = writer s" "console s' = console s"
    "r = None \<Longrightarrow> \<exists>img. im_convert (val (target s')) = Inr img \<and>
                     saved s' = saved s @ [(''target.png'', img)]"
    "r \<noteq> None \<Longrightarrow> saved s' = saved s"
  using assms
  by (auto simp: export_image_def touched_only_iff split: sum.splits)


lemma run_cases:
  obtains (aborted) s1 e where "train_loop W cfg (py_range 0 (steps cfg + 1)) s = (s1, Some e)"
      "run W cfg s = (s1, Some e)"
  | (finished) s1 where "train_loop W cfg (py_range 0 (steps cfg + 1)) s = (s1, None)"
      "run W cfg s = export_image s1"
proof (cases "train_loop W cfg (py_range 0 (steps cfg + 1)) s")
  case (Pair s1 r1)
  then show ?thesis
    by (cases r1) (auto simp: run_def intro: aborted finished)
qed



lemma iteration_sample_ok: "snd (iteration sample_world sample_config 0 sample_globals) = None"
  by code_simp

lemma mse_self: "mse a a = 0"
proof -
  have "(\<Sum>(x, y)\<leftarrow>zip xs xs. (x - y) ^ 2) = 0" for xs :: "real list"
    by (induction xs) simp_all
  then show ?thesis by (simp add: mse_def)
qed

text \<open>
  C2. When the features the loss reads are there with their shapes (the content layer
  \<^verbatim>\<open>conv4_2\<close> of the target and of the content image, and for every style layer a target
  feature map of shape (1, C, H, W) and a C \<times> C style Gram matrix), the total loss is
  \<open>content_weight \<cdot> content_loss + style_weight \<cdot> style_loss\<close>, where the content loss is
  the mean squared error of the two \<^verbatim>\<open>conv4_2\<close> activations and the style loss is the sum
  over the style layers of \<open>weight \<cdot> mse(Gram of the target, style Gram) / (C \<cdot> H \<cdot> W)\<close>. This
  is the number every pass of the loop hands to the writer under its own index.
\<close>

theorem total_loss_formula:
  assumes "map_of tf ''conv4_2'' = Some T" "map_of cf ''conv4_2'' = Some K"
    "shape T = shape K" "length (data T) = length (data K)"
    and "\<forall>(l, wt)\<in>set (style_weights cfg).
             map_of tf l = Some (F l) \<and> shape (F l) = [1, C l, H l, W l] \<and>
             gram_matrix (F l) = Inr (G l) \<and>
             map_of grams l = Some (S l) \<and> shape (S l) = [C l, C l] \<and>
             length (data (S l)) = C l * C l"
  shows "total_loss_of cfg tf cf grams =
           Inr (content_weight cfg * mse T K +
                style_weight cfg *
                  (\<Sum>(l, wt)\<leftarrow>style_weights cfg. wt * mse (G l) (S l) / real (C l * H l * W l))) \<and>
         (\<forall>world ii s.
            get_features (val (target s)) (vgg s) None = tf \<and> content_features s = cf \<and>
            style_grams s = grams \<and> snd (iteration world cfg ii s) = None \<longrightarrow>
            scalars (writer (fst (iteration world cfg ii s))) =
              scalars (writer s) @
                [(content_weight cfg * mse T K +
                  style_weight cfg *
                    (\<Sum>(l, wt)\<leftarrow>style_weights cfg. wt * mse (G l) (S l) / real (C l * H l * W l)),
                  ii)])"
proof -
  note v = total_loss_value[OF assms]
  have "scalars (writer (fst (iteration world cfg ii s))) =
              scalars (writer s) @
                [(content_weight cfg * mse T K +
                  style_weight cfg *
                    (\<Sum>(l, wt)\<leftarrow>style_weights cfg. wt * mse (G l) (S l) / real (C l * H l * W l)),
                  ii)]"
    if h: "get_features (val (target s)) (vgg s) None = tf" "content_features s = cf"
      "style_grams s = grams" "snd (iteration world cfg ii s) = None" for world ii s
  proof -
    obtain s' r where it: "iteration world cfg ii s = (s', r)"
      by (cases "iteration world cfg ii s")
    with h(4) have "r = None" by simp
    from iteration_log(3)[OF it this] h(1-3) v it show ?thesis by auto
  qed
  with v show ?thesis by blast
qed

theorem total_loss_formula_witness:
  "total_loss_of default_config
     [(''conv1_1'', \<lparr>shape = [1, 2, 1, 2], data = [1, 2, 3, 4]\<rparr>),
      (''conv2_1'', \<lparr>shape = [1, 2, 1, 2], data = [1, 2, 3, 4]\<rparr>),
      (''conv3_1'', \<lparr>shape = [1, 2, 1, 2], data = [1, 2, 3, 4]\<rparr>),
      (''conv4_1'', \<lparr>shape = [1, 2, 1, 2], data = [1, 2, 3, 4]\<rparr>),
      (''conv4_2'', \<lparr>shape = [1, 1, 1, 2], data = [1, 3]\<rparr>),
      (''conv5_1'', \<lparr>shape = [1, 2, 1, 2], data = [1, 2, 3, 4]\<rparr>)]
     [(''conv4_2'', \<lparr>shape = [1, 1, 1, 2], data = [0, 1]\<rparr>)]
     (map (\<lambda>k. (k, \<lparr>shape = [2, 2], data = [0, 0, 0, 0]\<rparr>))
        [''conv1_1'', ''conv2_1'', ''conv3_1'', ''conv4_1'', ''conv5_1''])
   = Inr (1 * (5 / 2) + 1000000 * ((1 + 0.8 + 0.5 + 0.3 + 0.1) * (223 / 4))) \<and>
   snd (iteration sample_world sample_config 0 sample_globals) = None \<and>
   scalars (writer (fst (iteration sample_world sample_config 0 sample_globals))) = [(0, 0)]"
proof -
  let ?F = "\<lparr>shape = [1, 2, 1, 2], data = [1, 2, 3, 4 :: real]\<rparr>"
  let ?G = "\<lparr>shape = [2, 2], data = [5, 11, 11, 25 :: real]\<rparr>"
  let ?S = "\<lparr>shape = [2, 2], data = [0, 0, 0, 0 :: real]\<rparr>"
  let ?T = "\<lparr>shape = [1, 1, 1, 2], data = [1, 3 :: real]\<rparr>"
  let ?K = "\<lparr>shape = [1, 1, 1, 2], data = [0, 1 :: real]\<rparr>"
  let ?tf = "[(''conv1_1'', ?F), (''conv2_1'', ?F), (''conv3_1'', ?F), (''conv4_1'', ?F),
              (''conv4_2'', ?T), (''conv5_1'', ?F)]"
  let ?cf = "[(''conv4_2'', ?K)]"
  let ?grams = "map (\<lambda>k. (k, ?S)) [''conv1_1'', ''conv2_1'', ''conv3_1'', ''conv4_1'', ''conv5_1'']"
  have g: "gram_matrix ?F = Inr ?G"
    by code_simp
  have A: "total_loss_of default_config ?tf ?cf ?grams =
         Inr (content_weight default_config * mse ?T ?K +
              style_weight default_config *
                (\<Sum>(l, wt)\<leftarrow>style_weights default_config.
                    wt * mse ?G ?S / real (2 * 1 * 2)))"
    by (rule total_loss_formula[where F = "\<lambda>l. ?F" and G = "\<lambda>l. ?G" and S = "\<lambda>l. ?S"
          and C = "\<lambda>l. 2" and H = "\<lambda>l. 1" and W = "\<lambda>l. 2", THEN conjunct1])
      (use g in \<open>simp_all add: default_config_def\<close>)
  have A': "total_loss_of default_config ?tf ?cf ?grams
            = Inr (1 * (5 / 2) + 1000000 * ((1 + 0.8 + 0.5 + 0.3 + 0.1) * (223 / 4)))"
    unfolding A by (simp add: default_config_def mse_def)
  have tf: "get_features (val (target sample_globals)) (vgg sample_globals) None
            = map (\<lambda>k. (k, sample_tensor)) sample_names"
    using features_sample by (simp add: sample_globals_def)
  have sg: "shape sample_gram = [3, 3]" "length (data sample_gram) = 3 * 3"
    by (simp_all add: sample_gram_def)
  note T = total_loss_formula[where tf = "map (\<lambda>k. (k, sample_tensor)) sample_names"
      and cf = "map (\<lambda>k. (k, sample_tensor)) sample_names"
      and grams = "map (\<lambda>k. (k, sample_gram)) sample_names"
      and T = sample_tensor and K = sample_tensor and cfg = sample_config
      and F = "\<lambda>l. sample_tensor" and G = "\<lambda>l. sample_gram" and S = "\<lambda>l. sample_gram"
      and C = "\<lambda>l. 3" and H = "\<lambda>l. 2" and W = "\<lambda>l. 2", THEN conjunct2, rule_format,
      where world = sample_world and ii = 0 and s = sample_globals]
  have gl: "content_features sample_globals = map (\<lambda>k. (k, sample_tensor)) sample_names"
    "style_grams sample_globals = map (\<lambda>k. (k, sample_gram)) sample_names"
    "writer sample_globals = []"
    by (simp_all add: sample_globals_def)
  have sw: "style_weights sample_config =
     [(''conv1_1'', 1), (''conv2_1'', 0.8), (''conv3_1'', 0.5), (''conv4_1'', 0.3), (''conv5_1'', 0.1)]"
    "content_weight sample_config = 1" "style_weight sample_config = 1000000"
    by (simp_all add: sample_config_def default_config_def)
  have lay: "\<forall>(l, wt)\<in>set (style_weights sample_config).
             map_of (map (\<lambda>k. (k, sample_tensor)) sample_names) l = Some sample_tensor \<and>
             shape sample_tensor = [1, 3, 2, 2] \<and>
             gram_matrix sample_tensor = Inr sample_gram \<and>
             map_of (map (\<lambda>k. (k, sample_gram)) sample_names) l = Some sample_gram \<and>
             shape sample_gram = [3, 3] \<and> length (data sample_gram) = 3 * 3"
    unfolding sw by (auto simp: sample_names_def shape_sample gram_sample sg)
  have "scalars (writer (fst (iteration sample_world sample_config 0 sample_globals))) =
        scalars (writer sample_globals) @
          [(content_weight sample_config * mse sample_tensor sample_tensor +
            style_weight sample_config *
              (\<Sum>(l, wt)\<leftarrow>style_weights sample_config.
                  wt * mse sample_gram sample_gram / real (3 * 2 * 2)), 0)]"
    apply (rule T)
    subgoal by (simp add: sample_names_def)
    subgoal by (simp add: sample_names_def)
    subgoal by simp
    subgoal by simp
    subgoal using lay by blast
    subgoal using tf gl iteration_sample_ok by simp
    done
  then have B: "scalars (writer (fst (iteration sample_world sample_config 0 sample_globals))) = [(0, 0)]"
    by (simp add: mse_self gl sw)
  from A' B iteration_sample_ok show ?thesis by (intro conjI)
qed

text \<open>
  C4. The script freezes every parameter of the network and gives the optimizer the target
  image alone. So, from the state the loop starts in, any number of passes and the
  export change nothing but the target image's value and gradient buffer, the
  optimizer's moment estimates, and what is written, printed and saved: the network, with
  the pretrained values of its parameters, and the features computed before the loop
  stay as they are.
\<close>

theorem network_never_updated:
  assumes "prepare W cfg = Inr s0"
  shows "vgg s0 = freeze (vgg19_features W) \<and> frozen (vgg s0) \<and>
         param_refs (optimizer s0) = [Target] \<and>
         map (\<lambda>(n, l). (n, map val (parameters l))) (vgg s0)
           = map (\<lambda>(n, l). (n, map val (parameters l))) (vgg19_features W) \<and>
         (\<forall>is. touched_only s0 (fst (train_loop W cfg is s0)) \<and>
               vgg (fst (train_loop W cfg is s0)) = vgg s0) \<and>
         touched_only s0 (fst (run W cfg s0)) \<and>
         vgg (fst (run W cfg s0)) = freeze (vgg19_features W)"
proof -
  note p = prepare_props[OF assms]
  have fr: "frozen (vgg s0)" by (simp add: p(1) frozen_freeze)
  have loop: "touched_only s0 (fst (train_loop W cfg is s0))" for "is"
    using train_loop_frame[OF p(2) fr, of W cfg "is"]
    by (cases "train_loop W cfg is s0") simp
  have r: "touched_only s0 (fst (run W cfg s0))"
  proof (cases rule: run_cases[of W cfg s0])
    case (aborted s1 e)
    with loop[of "py_range 0 (steps cfg + 1)"] show ?thesis by simp
  next
    case (finished s1)
    from loop[of "py_range 0 (steps cfg + 1)"] finished(1) have "touched_only s0 s1" by simp
    moreover have "touched_only s1 (fst (export_image s1))"
      using export_image_props(1)[of s1] by (cases "export_image s1") simp
    ultimately show ?thesis using finished(2) by (auto intro: touched_only_trans)
  qed
  from loop r p fr show ?thesis
    by (simp add: touched_only_iff freeze_vals)
qed

theorem network_never_updated_witness:
  "prepare sample_world sample_config = Inr sample_globals \<and>
   touched_only sample_globals (fst (run sample_world sample_config sample_globals)) \<and>
   vgg (fst (run sample_world sample_config sample_globals)) = freeze (vgg19_features sample_world)"
  using network_never_updated[OF prepare_sample] prepare_sample by simp





end
